theory Spec2Isabelle
  imports Main "HOL-Library.Word" "HOL-Library.AList"
begin

section \<open>Data model\<close>

type_synonym u8 = "8 word"
type_synonym u16 = "16 word"
type_synonym u32 = "32 word"
type_synonym u64 = "64 word"

text \<open>
  JSON values of the control channel (\<^verbatim>\<open>nlohmann::json\<close>). An object is kept as the list of
  its members; only integral numbers occur in the code embedded here.
\<close>

datatype json =
    JNull
  | JBool bool
  | JNumber int
  | JString string
  | JArray "json list"
  | JObject "(string \<times> json) list"

text \<open>\<^verbatim>\<open>json::find(key)\<close>: the member of an object, \<open>end()\<close> for anything else.\<close>

fun json_find :: "string \<Rightarrow> json \<Rightarrow> json option" where
  "json_find k (JObject kvs) = map_of kvs k"
| "json_find k _ = None"

fun is_array :: "json \<Rightarrow> bool" where
  "is_array (JArray _) = True"
| "is_array _ = False"

fun is_string :: "json \<Rightarrow> bool" where
  "is_string (JString _) = True"
| "is_string _ = False"

text \<open>\<^verbatim>\<open>data[key] = v\<close> on an object (or on null, which becomes an object).\<close>

fun json_set :: "string \<Rightarrow> json \<Rightarrow> json \<Rightarrow> json" where
  "json_set k v (JObject kvs) = JObject (AList.update k v kvs)"
| "json_set k v JNull = JObject [(k, v)]"
| "json_set k v j = j"

text \<open>The media kind of a Consumer; the constructor rejects the third value, \<^verbatim>\<open>ALL\<close>.\<close>

datatype Kind = AUDIO | VIDEO

text \<open>
  The fields of an RTP packet that the Consumer reads or writes
  (\<^verbatim>\<open>GetSsrc/SetSsrc\<close>, \<^verbatim>\<open>GetSequenceNumber/SetSequenceNumber\<close>, \<^verbatim>\<open>GetTimestamp\<close>,
  \<^verbatim>\<open>GetPayloadType\<close>, \<^verbatim>\<open>IsKeyFrame\<close>).
\<close>

record RtpPacket =
  ssrc :: u32
  sequenceNumber :: u16
  timestamp :: u32
  payloadType :: u8
  isKeyFrame :: bool

text \<open>
  Modelled from the spec: the struct \<^verbatim>\<open>PacketEventTypes\<close> is declared in Consumer.hpp, which
  is not among the sources. The spec gives it as a subset of {rtp, nack, pli, fir}; a fresh
  value ("Reset packetEventTypes" in the code) is the empty subset.
\<close>

record PacketEventTypes =
  rtp :: bool
  nack :: bool
  pli :: bool
  fir :: bool

definition newPacketEventTypes :: PacketEventTypes where
  "newPacketEventTypes = \<lparr>rtp = False, nack = False, pli = False, fir = False\<rparr>"

text \<open>
  Modelled from the spec: the sequence-number remapper (\<^verbatim>\<open>RTC::SeqManager<uint16_t>\<close>) is
  not among the sources. The spec (4.A): \<^verbatim>\<open>Sync(base)\<close> fixes the remapper's internal offset so
  that the next \<^verbatim>\<open>Input(inputSeq)\<close> produces \<open>base + 1\<close>; subsequent inputs produce outputs
  that preserve the relative gaps of the input stream, with wrap-around at \<open>2^16\<close>. The offset
  that makes the next input come out as \<open>base + 1\<close> depends on that input, so \<open>Sync\<close> records
  the base and the next \<open>Input\<close> fixes the offset.
\<close>

record SeqManager =
  offset :: u16
  syncBase :: "u16 option"

definition Sync :: "u16 \<Rightarrow> SeqManager \<Rightarrow> SeqManager" where
  "Sync b m = m\<lparr>syncBase := Some b\<rparr>"

definition Input :: "u16 \<Rightarrow> SeqManager \<Rightarrow> u16 \<times> SeqManager" where
  "Input inp m =
     (case syncBase m of
        Some b \<Rightarrow> (b + 1, m\<lparr>offset := b + 1 - inp, syncBase := None\<rparr>)
      | None \<Rightarrow> (inp + offset m, m))"

text \<open>
  Modelled from the spec: "strictly increasing modulo \<open>2^16\<close>" is read as the serial-number
  order of RTP sequence numbers: \<open>a\<close> is higher than \<open>b\<close> when the forward distance from \<open>b\<close>
  to \<open>a\<close> is non-zero and less than half the number space.
\<close>

definition seqHigherThan :: "u16 \<Rightarrow> u16 \<Rightarrow> bool" where
  "seqHigherThan a b \<longleftrightarrow> a \<noteq> b \<and> unat (a - b) < 2 ^ 15"

text \<open>
  The RTCP items the Consumer moves around. Modelled from the spec: the sender report
  carries packet count, octet count, NTP time and RTP timestamp; the SDES chunk carries the
  CNAME; the compound packet collects both kinds (\<^verbatim>\<open>AddSenderReport\<close>, \<^verbatim>\<open>AddSdesChunk\<close>
  append).
\<close>

record SenderReport =
  srPacketCount :: u32
  srOctetCount :: u32
  srNtpMs :: u64
  srRtpTs :: u32

record SdesChunk =
  cname :: string

record CompoundPacket =
  senderReports :: "SenderReport list"
  sdesChunks :: "SdesChunk list"

definition AddSenderReport :: "SenderReport \<Rightarrow> CompoundPacket \<Rightarrow> CompoundPacket" where
  "AddSenderReport r p = p\<lparr>senderReports := senderReports p @ [r]\<rparr>"

definition AddSdesChunk :: "SdesChunk \<Rightarrow> CompoundPacket \<Rightarrow> CompoundPacket" where
  "AddSdesChunk ch p = p\<lparr>sdesChunks := sdesChunks p @ [ch]\<rparr>"

text \<open>A NACK feedback packet: the sequence numbers it asks for.\<close>

type_synonym NackPacket = "u16 list"

datatype FeedbackPsMessageType = PLI | FIR | OTHER_PS

subsection \<open>Collaborators\<close>

text \<open>
  The send-side RTP stream (\<^verbatim>\<open>RTC::RtpStreamSend\<close>), the clock and the packet's JSON dump are
  not among the sources. They are parameters of the model: \<open>'rs\<close> is the stream's state and
  each method is a function on it. \<open>ReceiveNack\<close> returns the packets for which the stream
  fires its retransmit callback.
\<close>

record 'rs Env =
  ReceivePacket :: "RtpPacket \<Rightarrow> 'rs \<Rightarrow> bool \<times> 'rs"
  StreamReceiveNack :: "NackPacket \<Rightarrow> 'rs \<Rightarrow> RtpPacket list \<times> 'rs"
  StreamReceiveKeyFrameRequest :: "FeedbackPsMessageType \<Rightarrow> 'rs \<Rightarrow> 'rs"
  GetRtcpSenderReport :: "u64 \<Rightarrow> 'rs \<Rightarrow> SenderReport option \<times> 'rs"
  GetRtcpSdesChunk :: "'rs \<Rightarrow> SdesChunk \<times> 'rs"
  Pause :: "'rs \<Rightarrow> 'rs"
  HasRtx :: "'rs \<Rightarrow> bool"
  GetTimeMs :: u64
  PacketFillJson :: "RtpPacket \<Rightarrow> json"

text \<open>
  Everything a Consumer does to the outside is recorded, in order: calls on its send
  stream, calls on its listener, notifications, the answer to a request, and the base
  class's calls of the variant's hooks.
\<close>

datatype effect =
    RtpStream_ReceivePacket RtpPacket
  | RtpStream_ReceiveNack NackPacket
  | RtpStream_ReceiveKeyFrameRequest FeedbackPsMessageType
  | RtpStream_GetRtcpSenderReport u64
  | RtpStream_GetRtcpSdesChunk
  | RtpStream_Pause
  | Listener_OnConsumerSendRtpPacket RtpPacket
  | Listener_OnConsumerRetransmitRtpPacket RtpPacket
  | Listener_OnConsumerKeyFrameRequested u32
  | Listener_OnConsumerProducerClosed
  | Notifier_Emit string string "json option"
  | Request_Accept "json option"
  | Call_UserOnPaused
  | Call_UserOnResumed
  | Call_UserOnTransportConnected
  | Call_UserOnTransportDisconnected

datatype error =
    TypeError string
  | Error string
  | Abort string

subsection \<open>The Consumer\<close>

text \<open>
  The state of a \<^verbatim>\<open>SimpleConsumer\<close> (the fields of \<^verbatim>\<open>RTC::Consumer\<close> and of the variant
  that the embedded methods use). \<open>producerRtpStream\<close> and \<open>rtpStreamPtr\<close> are pointers
  (\<open>None\<close> is the null pointer); \<open>maxRtcpInterval\<close> is a number of milliseconds;
  \<open>encodingSsrc\<close> is \<^verbatim>\<open>rtpParameters.encodings[0].ssrc\<close> and
  \<open>consumableSsrc\<close> is \<^verbatim>\<open>consumableRtpEncodings[0].ssrc\<close>.
\<close>

record 'rs SimpleConsumer =
  consumerId :: string
  kind :: Kind
  transportConnected :: bool
  paused :: bool
  producerPaused :: bool
  producerClosed :: bool
  producerRtpStream :: "nat option"
  syncRequired :: bool
  keyFrameSupported :: bool
  supportedCodecPayloadTypes :: "u8 set"
  encodingSsrc :: u32
  consumableSsrc :: u32
  packetEventTypes :: PacketEventTypes
  maxRtcpInterval :: nat
  lastRtcpSentTime :: u64
  rtpSeqManager :: SeqManager
  rtpStreamPtr :: nat
  rtpStream :: 'rs

text \<open>
  Modelled from the spec: \<^verbatim>\<open>IsActive()\<close> is defined in the headers, which are not among the
  sources. The spec (3): \<open>IsActive() \<equiv> transportConnected \<and> \<not>paused \<and> \<not>producerPaused \<and>
  \<not>producerClosed \<and> \<exists> producerRtpStream\<close>.
\<close>

definition IsActive :: "'rs SimpleConsumer \<Rightarrow> bool" where
  "IsActive c \<longleftrightarrow>
     transportConnected c \<and> \<not> paused c \<and> \<not> producerPaused c \<and> \<not> producerClosed c
     \<and> producerRtpStream c \<noteq> None"

section \<open>Consumer.cpp: packet events\<close>

definition packetEventData :: "'rs Env \<Rightarrow> string \<Rightarrow> string \<Rightarrow> json \<Rightarrow> json" where
  "packetEventData env ty dir info =
     JObject [(''type'', JString ty), (''timestamp'', JNumber (uint (GetTimeMs env))),
              (''direction'', JString dir), (''info'', info)]"

definition EmitPacketEventRtpType ::
  "'rs Env \<Rightarrow> 'rs SimpleConsumer \<Rightarrow> RtpPacket \<Rightarrow> bool \<Rightarrow> effect list" where
  "EmitPacketEventRtpType env c packet isRtx =
     (if \<not> rtp (packetEventTypes c) then []
      else
        let info = PacketFillJson env packet;
            info' = (if isRtx then json_set ''isRtx'' (JBool True) info else info)
        in [Notifier_Emit (consumerId c) ''packet''
              (Some (packetEventData env ''rtp'' ''out'' info'))])"

definition EmitPacketEventPliType :: "'rs Env \<Rightarrow> 'rs SimpleConsumer \<Rightarrow> u32 \<Rightarrow> effect list" where
  "EmitPacketEventPliType env c s =
     (if \<not> pli (packetEventTypes c) then []
      else [Notifier_Emit (consumerId c) ''packet''
              (Some (packetEventData env ''pli'' ''in'' (JObject [(''ssrc'', JNumber (uint s))])))])"

definition EmitPacketEventFirType :: "'rs Env \<Rightarrow> 'rs SimpleConsumer \<Rightarrow> u32 \<Rightarrow> effect list" where
  "EmitPacketEventFirType env c s =
     (if \<not> fir (packetEventTypes c) then []
      else [Notifier_Emit (consumerId c) ''packet''
              (Some (packetEventData env ''fir'' ''in'' (JObject [(''ssrc'', JNumber (uint s))])))])"

definition EmitPacketEventNackType :: "'rs Env \<Rightarrow> 'rs SimpleConsumer \<Rightarrow> effect list" where
  "EmitPacketEventNackType env c =
     (if \<not> nack (packetEventTypes c) then []
      else [Notifier_Emit (consumerId c) ''packet''
              (Some (packetEventData env ''nack'' ''in'' (JObject [])))])"

section \<open>SimpleConsumer.cpp\<close>

text \<open>
  \<^verbatim>\<open>SimpleConsumer::SendRtpPacket(packet)\<close>. The packet is passed by pointer and rewritten in
  place, so the function returns the packet as the call leaves it, next to the new state
  and the effects. The three early returns come first, in the source's order. The stream
  and the listener are handed the rewritten packet.
\<close>

definition SendRtpPacket ::
  "'rs Env \<Rightarrow> RtpPacket \<Rightarrow> 'rs SimpleConsumer \<Rightarrow> 'rs SimpleConsumer \<times> RtpPacket \<times> effect list" where
  "SendRtpPacket env packet c =
     (if \<not> IsActive c then (c, packet, [])
      else if payloadType packet \<notin> supportedCodecPayloadTypes c then (c, packet, [])
      else if syncRequired c \<and> keyFrameSupported c \<and> \<not> isKeyFrame packet then (c, packet, [])
      else
        let isSyncPacket = syncRequired c;
            c1 = (if isSyncPacket
                  then c\<lparr>rtpSeqManager := Sync (sequenceNumber packet - 1) (rtpSeqManager c),
                         syncRequired := False\<rparr>
                  else c);
            (seq, m) = Input (sequenceNumber packet) (rtpSeqManager c1);
            c2 = c1\<lparr>rtpSeqManager := m\<rparr>;
            origSsrc = ssrc packet;
            origSeq = sequenceNumber packet;
            packet1 = packet\<lparr>ssrc := encodingSsrc c2, sequenceNumber := seq\<rparr>;
            (accepted, rs) = ReceivePacket env packet1 (rtpStream c2);
            c3 = c2\<lparr>rtpStream := rs\<rparr>;
            es = RtpStream_ReceivePacket packet1 #
                 (if accepted
                  then Listener_OnConsumerSendRtpPacket packet1 #
                       EmitPacketEventRtpType env c3 packet1 False
                  else []);
            packet2 = packet1\<lparr>ssrc := origSsrc, sequenceNumber := origSeq\<rparr>
        in (c3, packet2, es))"

text \<open>The packets handed to the send stream, and those handed to the listener for sending.\<close>

fun rewritten :: "effect list \<Rightarrow> RtpPacket list" where
  "rewritten [] = []"
| "rewritten (RtpStream_ReceivePacket p # es) = p # rewritten es"
| "rewritten (_ # es) = rewritten es"

fun sent :: "effect list \<Rightarrow> RtpPacket list" where
  "sent [] = []"
| "sent (Listener_OnConsumerSendRtpPacket p # es) = p # sent es"
| "sent (_ # es) = sent es"

text \<open>
  \<^verbatim>\<open>OnRtpStreamRetransmitRtpPacket\<close>: the stream's callback into the Consumer, once for each
  packet it retransmits.
\<close>

definition OnRtpStreamRetransmitRtpPacket ::
  "'rs Env \<Rightarrow> 'rs SimpleConsumer \<Rightarrow> RtpPacket \<Rightarrow> effect list" where
  "OnRtpStreamRetransmitRtpPacket env c packet =
     Listener_OnConsumerRetransmitRtpPacket packet #
     EmitPacketEventRtpType env c packet (HasRtx env (rtpStream c))"

definition ReceiveNack ::
  "'rs Env \<Rightarrow> NackPacket \<Rightarrow> 'rs SimpleConsumer \<Rightarrow> 'rs SimpleConsumer \<times> effect list" where
  "ReceiveNack env nackPacket c =
     (if \<not> IsActive c then (c, [])
      else
        let es1 = EmitPacketEventNackType env c;
            (retransmitted, rs) = StreamReceiveNack env nackPacket (rtpStream c);
            c1 = c\<lparr>rtpStream := rs\<rparr>
        in (c1, es1 @ RtpStream_ReceiveNack nackPacket #
                      concat (map (OnRtpStreamRetransmitRtpPacket env c1) retransmitted)))"

text \<open>Successive calls of SendRtpPacket, one for each packet of a list, in order.\<close>

fun feedPackets ::
  "'rs Env \<Rightarrow> RtpPacket list \<Rightarrow> 'rs SimpleConsumer \<Rightarrow> 'rs SimpleConsumer \<times> effect list" where
  "feedPackets env [] c = (c, [])"
| "feedPackets env (p # ps) c =
     (let (c1, p', es1) = SendRtpPacket env p c;
          (c2, es2) = feedPackets env ps c1
      in (c2, es1 @ es2))"

text \<open>The admission rules of SendRtpPacket: none of its three early returns is taken.\<close>

definition admitted :: "'rs SimpleConsumer \<Rightarrow> RtpPacket \<Rightarrow> bool" where
  "admitted c p \<longleftrightarrow>
     IsActive c \<and> payloadType p \<in> supportedCodecPayloadTypes c
     \<and> \<not> (syncRequired c \<and> keyFrameSupported c \<and> \<not> isKeyFrame p)"

text \<open>Each sequence number of the list is higher than the one before it.\<close>

fun strictlyIncreasing :: "u16 list \<Rightarrow> bool" where
  "strictlyIncreasing (a # b # r) \<longleftrightarrow> seqHigherThan b a \<and> strictlyIncreasing (b # r)"
| "strictlyIncreasing _ \<longleftrightarrow> True"

subsection \<open>RTCP\<close>

text \<open>
  The guard of \<^verbatim>\<open>GetRtcp\<close>, \<^verbatim>\<open>(nowMs - lastRtcpSentTime) * 1.15 < maxRtcpInterval\<close>. The
  subtraction is on \<^verbatim>\<open>uint64_t\<close> and wraps. The source multiplies and compares in floating
  point; the model compares the exact products, \<open>115 * d < 100 * max\<close>.
\<close>

definition rtcpTooSoon :: "u64 \<Rightarrow> u64 \<Rightarrow> nat \<Rightarrow> bool" where
  "rtcpTooSoon nowMs lastSent maxInterval \<longleftrightarrow> unat (nowMs - lastSent) * 115 < maxInterval * 100"

text \<open>
  \<^verbatim>\<open>SimpleConsumer::GetRtcp(packet, rtpStream, nowMs)\<close>. \<open>streamPtr\<close> is the pointer passed as
  \<^verbatim>\<open>rtpStream\<close>; the failing \<^verbatim>\<open>MS_ASSERT\<close> aborts the worker.
\<close>

definition GetRtcp ::
  "'rs Env \<Rightarrow> CompoundPacket \<Rightarrow> nat \<Rightarrow> u64 \<Rightarrow> 'rs SimpleConsumer
     \<Rightarrow> error + ('rs SimpleConsumer \<times> CompoundPacket \<times> effect list)" where
  "GetRtcp env packet streamPtr nowMs c =
     (if streamPtr \<noteq> rtpStreamPtr c then Inl (Abort ''RTP stream does not match'')
      else if rtcpTooSoon nowMs (lastRtcpSentTime c) (maxRtcpInterval c) then Inr (c, packet, [])
      else
        let (report, rs1) = GetRtcpSenderReport env nowMs (rtpStream c);
            c1 = c\<lparr>rtpStream := rs1\<rparr>
        in case report of
             None \<Rightarrow> Inr (c1, packet, [RtpStream_GetRtcpSenderReport nowMs])
           | Some r \<Rightarrow>
               let packet1 = AddSenderReport r packet;
                   (sdesChunk, rs2) = GetRtcpSdesChunk env (rtpStream c1);
                   packet2 = AddSdesChunk sdesChunk packet1;
                   c2 = c1\<lparr>rtpStream := rs2, lastRtcpSentTime := nowMs\<rparr>
               in Inr (c2, packet2,
                       [RtpStream_GetRtcpSenderReport nowMs, RtpStream_GetRtcpSdesChunk]))"

subsection \<open>Hooks of the variant\<close>

definition RequestKeyFrame :: "'rs SimpleConsumer \<Rightarrow> effect list" where
  "RequestKeyFrame c =
     (if kind c \<noteq> VIDEO then []
      else let mappedSsrc = consumableSsrc c in [Listener_OnConsumerKeyFrameRequested mappedSsrc])"

definition UserOnTransportConnected ::
  "'rs Env \<Rightarrow> 'rs SimpleConsumer \<Rightarrow> 'rs SimpleConsumer \<times> effect list" where
  "UserOnTransportConnected env c =
     (let c1 = c\<lparr>syncRequired := True\<rparr>
      in (c1, if IsActive c1 then RequestKeyFrame c1 else []))"

definition UserOnTransportDisconnected ::
  "'rs Env \<Rightarrow> 'rs SimpleConsumer \<Rightarrow> 'rs SimpleConsumer \<times> effect list" where
  "UserOnTransportDisconnected env c = (c\<lparr>rtpStream := Pause env (rtpStream c)\<rparr>, [RtpStream_Pause])"

definition UserOnPaused ::
  "'rs Env \<Rightarrow> 'rs SimpleConsumer \<Rightarrow> 'rs SimpleConsumer \<times> effect list" where
  "UserOnPaused env c = (c\<lparr>rtpStream := Pause env (rtpStream c)\<rparr>, [RtpStream_Pause])"

definition UserOnResumed ::
  "'rs Env \<Rightarrow> 'rs SimpleConsumer \<Rightarrow> 'rs SimpleConsumer \<times> effect list" where
  "UserOnResumed env c =
     (let c1 = c\<lparr>syncRequired := True\<rparr>
      in (c1, if IsActive c1 then RequestKeyFrame c1 else []))"

text \<open>\<^verbatim>\<open>SimpleConsumer::ReceiveKeyFrameRequest(messageType, ssrc)\<close>.\<close>

definition ReceiveKeyFrameRequest ::
  "'rs Env \<Rightarrow> FeedbackPsMessageType \<Rightarrow> u32 \<Rightarrow> 'rs SimpleConsumer
     \<Rightarrow> 'rs SimpleConsumer \<times> effect list" where
  "ReceiveKeyFrameRequest env messageType s c =
     (let es1 = (case messageType of
                   PLI \<Rightarrow> EmitPacketEventPliType env c s
                 | FIR \<Rightarrow> EmitPacketEventFirType env c s
                 | OTHER_PS \<Rightarrow> []);
          c1 = c\<lparr>rtpStream := StreamReceiveKeyFrameRequest env messageType (rtpStream c)\<rparr>
      in (c1, es1 @ RtpStream_ReceiveKeyFrameRequest messageType #
                    (if IsActive c1 then RequestKeyFrame c1 else [])))"

section \<open>Consumer.cpp: requests and events\<close>

text \<open>
  The base class calls the variant's hooks through virtual methods; each call is recorded
  in the effects, followed by what the hook of the SimpleConsumer does.
\<close>

definition callUserOnPaused ::
  "'rs Env \<Rightarrow> 'rs SimpleConsumer \<Rightarrow> 'rs SimpleConsumer \<times> effect list" where
  "callUserOnPaused env c = (let (c1, es) = UserOnPaused env c in (c1, Call_UserOnPaused # es))"

definition callUserOnResumed ::
  "'rs Env \<Rightarrow> 'rs SimpleConsumer \<Rightarrow> 'rs SimpleConsumer \<times> effect list" where
  "callUserOnResumed env c = (let (c1, es) = UserOnResumed env c in (c1, Call_UserOnResumed # es))"

datatype MethodId =
    CONSUMER_DUMP
  | CONSUMER_GET_STATS
  | CONSUMER_PAUSE
  | CONSUMER_RESUME
  | CONSUMER_ENABLE_PACKET_EVENT
  | CONSUMER_REQUEST_KEY_FRAME
  | OTHER_METHOD

text \<open>A request of the control channel; \<open>methodName\<close> is the field \<^verbatim>\<open>request->method\<close>.\<close>

record Request =
  methodId :: MethodId
  methodName :: string
  data :: json

text \<open>
  \<^verbatim>\<open>FillJson\<close> and \<^verbatim>\<open>FillJsonStats\<close> serialise parts of the Consumer whose classes are not
  among the sources; they are parameters.
\<close>

record 'rs Dump =
  FillJson :: "'rs SimpleConsumer \<Rightarrow> json"
  FillJsonStats :: "'rs SimpleConsumer \<Rightarrow> json"

text \<open>
  The loop of CONSUMER_ENABLE_PACKET_EVENT over the elements of \<^verbatim>\<open>types\<close>: it fills the local
  \<^verbatim>\<open>newPacketEventTypes\<close> and throws at the first element that is not a string.
\<close>

fun fillPacketEventTypes :: "json list \<Rightarrow> PacketEventTypes \<Rightarrow> error + PacketEventTypes" where
  "fillPacketEventTypes [] acc = Inr acc"
| "fillPacketEventTypes (ty # tys) acc =
     (case ty of
        JString typeStr \<Rightarrow>
          fillPacketEventTypes tys
            (if typeStr = ''rtp'' then acc\<lparr>rtp := True\<rparr>
             else if typeStr = ''nack'' then acc\<lparr>nack := True\<rparr>
             else if typeStr = ''pli'' then acc\<lparr>pli := True\<rparr>
             else if typeStr = ''fir'' then acc\<lparr>fir := True\<rparr>
             else acc)
      | _ \<Rightarrow> Inl (TypeError ''wrong type (not a string)''))"

text \<open>
  \<^verbatim>\<open>Consumer::HandleRequest(request)\<close>. The result is the new state, the effects, and the
  exception the call ends with, if any (\<^verbatim>\<open>MS_THROW_TYPE_ERROR\<close>, \<^verbatim>\<open>MS_THROW_ERROR\<close>).
\<close>

definition Consumer_HandleRequest ::
  "'rs Env \<Rightarrow> 'rs Dump \<Rightarrow> Request \<Rightarrow> 'rs SimpleConsumer
     \<Rightarrow> 'rs SimpleConsumer \<times> effect list \<times> error option" where
  "Consumer_HandleRequest env dump request c =
     (case methodId request of
        CONSUMER_DUMP \<Rightarrow> (c, [Request_Accept (Some (FillJson dump c))], None)
      | CONSUMER_GET_STATS \<Rightarrow> (c, [Request_Accept (Some (FillJsonStats dump c))], None)
      | CONSUMER_PAUSE \<Rightarrow>
          (if paused c then (c, [Request_Accept None], None)
           else
             let wasActive = IsActive c;
                 c1 = c\<lparr>paused := True\<rparr>;
                 (c2, es) = (if wasActive then callUserOnPaused env c1 else (c1, []))
             in (c2, es @ [Request_Accept None], None))
      | CONSUMER_RESUME \<Rightarrow>
          (if \<not> paused c then (c, [Request_Accept None], None)
           else
             let c1 = c\<lparr>paused := False\<rparr>;
                 (c2, es) = (if IsActive c1 then callUserOnResumed env c1 else (c1, []))
             in (c2, es @ [Request_Accept None], None))
      | CONSUMER_ENABLE_PACKET_EVENT \<Rightarrow>
          (case json_find ''types'' (data request) of
             Some (JArray types) \<Rightarrow>
               (case fillPacketEventTypes types newPacketEventTypes of
                  Inl e \<Rightarrow> (c, [], Some e)
                | Inr new \<Rightarrow> (c\<lparr>packetEventTypes := new\<rparr>, [Request_Accept None], None))
           | _ \<Rightarrow> (c, [], Some (TypeError ''wrong types (not an array)'')))
      | _ \<Rightarrow> (c, [], Some (Error (''unknown method '' @ [CHR 0x27] @ methodName request @ [CHR 0x27]))))"

text \<open>\<^verbatim>\<open>SimpleConsumer::HandleRequest(request)\<close>.\<close>

definition SimpleConsumer_HandleRequest ::
  "'rs Env \<Rightarrow> 'rs Dump \<Rightarrow> Request \<Rightarrow> 'rs SimpleConsumer
     \<Rightarrow> 'rs SimpleConsumer \<times> effect list \<times> error option" where
  "SimpleConsumer_HandleRequest env dump request c =
     (case methodId request of
        CONSUMER_REQUEST_KEY_FRAME \<Rightarrow>
          (c, (if IsActive c then RequestKeyFrame c else []) @ [Request_Accept None], None)
      | _ \<Rightarrow> Consumer_HandleRequest env dump request c)"

definition TransportConnected ::
  "'rs Env \<Rightarrow> 'rs SimpleConsumer \<Rightarrow> 'rs SimpleConsumer \<times> effect list" where
  "TransportConnected env c =
     (let c1 = c\<lparr>transportConnected := True\<rparr>;
          (c2, es) = UserOnTransportConnected env c1
      in (c2, Call_UserOnTransportConnected # es))"

definition TransportDisconnected ::
  "'rs Env \<Rightarrow> 'rs SimpleConsumer \<Rightarrow> 'rs SimpleConsumer \<times> effect list" where
  "TransportDisconnected env c =
     (let c1 = c\<lparr>transportConnected := False\<rparr>;
          (c2, es) = UserOnTransportDisconnected env c1
      in (c2, Call_UserOnTransportDisconnected # es))"

definition ProducerPaused ::
  "'rs Env \<Rightarrow> 'rs SimpleConsumer \<Rightarrow> 'rs SimpleConsumer \<times> effect list" where
  "ProducerPaused env c =
     (if producerPaused c then (c, [])
      else
        let wasActive = IsActive c;
            c1 = c\<lparr>producerPaused := True\<rparr>;
            (c2, es) = (if wasActive then callUserOnPaused env c1 else (c1, []))
        in (c2, es @ [Notifier_Emit (consumerId c2) ''producerpause'' None]))"

definition ProducerResumed ::
  "'rs Env \<Rightarrow> 'rs SimpleConsumer \<Rightarrow> 'rs SimpleConsumer \<times> effect list" where
  "ProducerResumed env c =
     (if \<not> producerPaused c then (c, [])
      else
        let c1 = c\<lparr>producerPaused := False\<rparr>;
            (c2, es) = (if IsActive c1 then callUserOnResumed env c1 else (c1, []))
        in (c2, es @ [Notifier_Emit (consumerId c2) ''producerresume'' None]))"

definition ProducerClosed :: "'rs SimpleConsumer \<Rightarrow> 'rs SimpleConsumer \<times> effect list" where
  "ProducerClosed c =
     (let c1 = c\<lparr>producerClosed := True\<rparr>
      in (c1, [Notifier_Emit (consumerId c1) ''producerclose'' None,
               Listener_OnConsumerProducerClosed]))"

section \<open>Sequences of calls\<close>

text \<open>The calls on a Consumer that are embedded above, as the Router and the Transport make them.\<close>

datatype call =
    SendRtpPacket_call RtpPacket
  | ReceiveNack_call NackPacket
  | ReceiveKeyFrameRequest_call FeedbackPsMessageType u32
  | GetRtcp_call CompoundPacket nat u64
  | HandleRequest_call Request
  | ProducerPaused_call
  | ProducerResumed_call
  | ProducerClosed_call
  | TransportConnected_call
  | TransportDisconnected_call

text \<open>
  One call: the state it leaves and its effects. A request that ends with an exception
  leaves the Consumer in use (the exception is turned into a Reject where requests are
  dispatched); the failed assertion of \<^verbatim>\<open>GetRtcp\<close> ends the worker, which is \<open>None\<close>.
\<close>

definition runCall ::
  "'rs Env \<Rightarrow> 'rs Dump \<Rightarrow> call \<Rightarrow> 'rs SimpleConsumer
     \<Rightarrow> ('rs SimpleConsumer \<times> effect list) option" where
  "runCall env dump k c =
     (case k of
        SendRtpPacket_call p \<Rightarrow> (let (c', p', es) = SendRtpPacket env p c in Some (c', es))
      | ReceiveNack_call n \<Rightarrow> Some (ReceiveNack env n c)
      | ReceiveKeyFrameRequest_call t s \<Rightarrow> Some (ReceiveKeyFrameRequest env t s c)
      | GetRtcp_call packet streamPtr nowMs \<Rightarrow>
          (case GetRtcp env packet streamPtr nowMs c of
             Inl e \<Rightarrow> None
           | Inr (c', packet', es) \<Rightarrow> Some (c', es))
      | HandleRequest_call request \<Rightarrow>
          (let (c', es, thrown) = SimpleConsumer_HandleRequest env dump request c in Some (c', es))
      | ProducerPaused_call \<Rightarrow> Some (ProducerPaused env c)
      | ProducerResumed_call \<Rightarrow> Some (ProducerResumed env c)
      | ProducerClosed_call \<Rightarrow> Some (ProducerClosed c)
      | TransportConnected_call \<Rightarrow> Some (TransportConnected env c)
      | TransportDisconnected_call \<Rightarrow> Some (TransportDisconnected env c))"

text \<open>The calls of a list, one after the other.\<close>

fun runCalls ::
  "'rs Env \<Rightarrow> 'rs Dump \<Rightarrow> call list \<Rightarrow> 'rs SimpleConsumer
     \<Rightarrow> ('rs SimpleConsumer \<times> effect list) option" where
  "runCalls env dump [] c = Some (c, [])"
| "runCalls env dump (k # ks) c =
     (case runCall env dump k c of
        None \<Rightarrow> None
      | Some (c1, es1) \<Rightarrow>
          (case runCalls env dump ks c1 of
             None \<Rightarrow> None
           | Some (c2, es2) \<Rightarrow> Some (c2, es1 @ es2)))"

text \<open>
  The call reaches \<^verbatim>\<open>rtpSeqManager.Sync\<close>: it is SendRtpPacket with a packet that is admitted
  while syncRequired is set. \<open>noSync\<close>: none of the calls of the list, run in order, does.
\<close>

definition callsSync :: "'rs SimpleConsumer \<Rightarrow> call \<Rightarrow> bool" where
  "callsSync c k \<longleftrightarrow>
     (case k of SendRtpPacket_call p \<Rightarrow> admitted c p \<and> syncRequired c | _ \<Rightarrow> False)"

fun noSync :: "'rs Env \<Rightarrow> 'rs Dump \<Rightarrow> call list \<Rightarrow> 'rs SimpleConsumer \<Rightarrow> bool" where
  "noSync env dump [] c \<longleftrightarrow> True"
| "noSync env dump (k # ks) c \<longleftrightarrow>
     \<not> callsSync c k
     \<and> (case runCall env dump k c of None \<Rightarrow> True | Some (c1, es1) \<Rightarrow> noSync env dump ks c1)"

section \<open>UdpSocket.cpp\<close>

text \<open>
  The socket's fields that \<^verbatim>\<open>Send\<close> uses; \<^verbatim>\<open>sentBytes\<close> is a \<^verbatim>\<open>size_t\<close>.
\<close>

record UdpSocket =
  closed :: bool
  sentBytes :: u64


text \<open>
  The effects of \<^verbatim>\<open>Send\<close>: the calls of libuv with the length of the buffer they are
  given, the call of the caller's callback with its argument, and the deletion of the
  callback. The buffer is made by \<^verbatim>\<open>uv_buf_init(char*, unsigned int)\<close>, so libuv is given the
  low 32 bits of \<^verbatim>\<open>len\<close>.
\<close>

datatype udp_effect =
    Uv_udp_try_send "32 word"
  | Uv_udp_send "32 word"
  | Callback bool
  | DeleteCallback


text \<open>
  The completion of a queued send: \<^verbatim>\<open>onSend\<close> calls \<^verbatim>\<open>OnUvSend(status, cb)\<close> unless the socket
  has been closed, and deletes the callback.
\<close>

definition OnUvSend :: "32 word \<Rightarrow> bool \<Rightarrow> udp_effect list" where
  "OnUvSend status hasCb =
     (if status = 0 then (if hasCb then [Callback True] else [])
      else (if hasCb then [Callback False] else []))"

definition onSend :: "32 word \<Rightarrow> bool \<Rightarrow> UdpSocket \<Rightarrow> udp_effect list" where
  "onSend status hasCb s =
     (if \<not> closed s then OnUvSend status hasCb else []) @ (if hasCb then [DeleteCallback] else [])"

section \<open>Scenario values\<close>

text \<open>
  A stream that accepts every packet and has nothing to retransmit or report, and an audio
  Consumer as in scenario S1 of the spec: outgoing SSRC 1111, payload type 100.
\<close>

definition env0 :: "unit Env" where
  "env0 = \<lparr>ReceivePacket = (\<lambda>p s. (True, s)),
           StreamReceiveNack = (\<lambda>n s. ([], s)),
           StreamReceiveKeyFrameRequest = (\<lambda>t s. s),
           GetRtcpSenderReport = (\<lambda>t s. (None, s)),
           GetRtcpSdesChunk = (\<lambda>s. (\<lparr>cname = ''cname''\<rparr>, s)),
           Pause = (\<lambda>s. s),
           HasRtx = (\<lambda>s. False),
           GetTimeMs = 0,
           PacketFillJson = (\<lambda>p. JObject [])\<rparr>"

definition consumer0 :: "unit SimpleConsumer" where
  "consumer0 =
     \<lparr>consumerId = ''c0'', kind = AUDIO, transportConnected = True, paused = False,
      producerPaused = False, producerClosed = False, producerRtpStream = Some 1,
      syncRequired = True, keyFrameSupported = False, supportedCodecPayloadTypes = {100},
      encodingSsrc = 1111, consumableSsrc = 2222, packetEventTypes = newPacketEventTypes,
      maxRtcpInterval = 5000, lastRtcpSentTime = 0,
      rtpSeqManager = \<lparr>offset = 0, syncBase = None\<rparr>, rtpStreamPtr = 7, rtpStream = ()\<rparr>"

definition pkt :: "u16 \<Rightarrow> RtpPacket" where
  "pkt s = \<lparr>ssrc = 2222, sequenceNumber = s, timestamp = 0, payloadType = 100, isKeyFrame = False\<rparr>"

text \<open>
  Requests of the control channel, a stream that has a sender report to give, an empty
  compound packet, and an open socket with a partial answer of libuv (40 bytes sent).
\<close>

definition enableRequest :: "json \<Rightarrow> Request" where
  "enableRequest d =
     \<lparr>methodId = CONSUMER_ENABLE_PACKET_EVENT, methodName = ''consumer.enablePacketEvent'',
      data = d\<rparr>"

definition dump0 :: "unit Dump" where
  "dump0 = \<lparr>FillJson = (\<lambda>c. JObject []), FillJsonStats = (\<lambda>c. JArray [])\<rparr>"

definition pauseRequest :: Request where
  "pauseRequest = \<lparr>methodId = CONSUMER_PAUSE, methodName = ''consumer.pause'', data = JNull\<rparr>"

definition resumeRequest :: Request where
  "resumeRequest = \<lparr>methodId = CONSUMER_RESUME, methodName = ''consumer.resume'', data = JNull\<rparr>"

definition report0 :: SenderReport where
  "report0 = \<lparr>srPacketCount = 3, srOctetCount = 300, srNtpMs = 4500, srRtpTs = 7\<rparr>"

definition env1 :: "unit Env" where
  "env1 = env0\<lparr>GetRtcpSenderReport := (\<lambda>t s. (Some report0, s))\<rparr>"

definition compound0 :: CompoundPacket where
  "compound0 = \<lparr>senderReports = [], sdesChunks = []\<rparr>"



section \<open>Properties of SendRtpPacket\<close>

lemma SendRtpPacket_inactive:
  "\<not> IsActive c \<Longrightarrow> SendRtpPacket env packet c = (c, packet, [])"
  by (simp add: SendRtpPacket_def)

lemma sent_EmitPacketEventRtpType [simp]:
  "sent (EmitPacketEventRtpType env c p b) = []"
  by (simp add: EmitPacketEventRtpType_def Let_def)

lemma rewritten_EmitPacketEventRtpType [simp]:
  "rewritten (EmitPacketEventRtpType env c p b) = []"
  by (simp add: EmitPacketEventRtpType_def Let_def)

lemma sent_mem: "Listener_OnConsumerSendRtpPacket q \<in> set es \<longleftrightarrow> q \<in> set (sent es)"
  by (induction es rule: sent.induct) auto

lemma rewritten_mem: "RtpStream_ReceivePacket q \<in> set es \<longleftrightarrow> q \<in> set (rewritten es)"
  by (induction es rule: rewritten.induct) auto

lemma SendRtpPacket_flags:
  assumes "SendRtpPacket env packet c = (c', packet', es)"
  shows "transportConnected c' = transportConnected c" "paused c' = paused c"
    "producerPaused c' = producerPaused c" "producerClosed c' = producerClosed c"
    "producerRtpStream c' = producerRtpStream c" "keyFrameSupported c' = keyFrameSupported c"
    "supportedCodecPayloadTypes c' = supportedCodecPayloadTypes c"
    "encodingSsrc c' = encodingSsrc c"
  using assms
  by (auto simp: SendRtpPacket_def Let_def split: if_splits prod.splits)

lemma SendRtpPacket_IsActive:
  "SendRtpPacket env packet c = (c', packet', es) \<Longrightarrow> IsActive c' = IsActive c"
  by (simp add: IsActive_def SendRtpPacket_flags)

text \<open>
  C1. For every call of SendRtpPacket: if the call hands a packet to the listener's
  transmission callback (OnConsumerSendRtpPacket), then the Consumer was active when the
  call began and is still active when it ends (the call changes none of the flags of
  IsActive, so they held at the moment of dispatch); and a call on a Consumer that is not
  active changes nothing and has no effect at all.
\<close>

theorem C1_active_gate:
  "(SendRtpPacket env packet c = (c', packet', es) \<and> Listener_OnConsumerSendRtpPacket q \<in> set es
      \<longrightarrow> IsActive c \<and> IsActive c')
   \<and> (\<not> IsActive c \<longrightarrow> SendRtpPacket env packet c = (c, packet, []))"
proof (intro conjI impI)
  assume a: "SendRtpPacket env packet c = (c', packet', es) \<and>
             Listener_OnConsumerSendRtpPacket q \<in> set es"
  show "IsActive c"
  proof (rule ccontr)
    assume "\<not> IsActive c"
    then have "SendRtpPacket env packet c = (c, packet, [])"
      by (rule SendRtpPacket_inactive)
    with a show False by auto
  qed
  moreover from a have "IsActive c' = IsActive c"
    by (auto dest: SendRtpPacket_IsActive)
  ultimately show "IsActive c'"
    by simp
next
  assume "\<not> IsActive c"
  then show "SendRtpPacket env packet c = (c, packet, [])"
    by (rule SendRtpPacket_inactive)
qed

text \<open>The first packet of scenario S1, run on the scenario's Consumer.\<close>

lemma SendRtpPacket_consumer0:
  "SendRtpPacket env0 (pkt 1000) consumer0 =
     (consumer0\<lparr>syncRequired := False\<rparr>, pkt 1000,
      [RtpStream_ReceivePacket ((pkt 1000)\<lparr>ssrc := 1111\<rparr>),
       Listener_OnConsumerSendRtpPacket ((pkt 1000)\<lparr>ssrc := 1111\<rparr>)])"
  by (simp add: SendRtpPacket_def IsActive_def consumer0_def env0_def pkt_def Sync_def Input_def
      EmitPacketEventRtpType_def newPacketEventTypes_def Let_def)

lemma IsActive_consumer0: "IsActive consumer0"
  by (simp add: IsActive_def consumer0_def)

theorem C1_active_gate_witness:
  "SendRtpPacket env0 (pkt 1000) consumer0 =
     (consumer0\<lparr>syncRequired := False\<rparr>, pkt 1000,
      [RtpStream_ReceivePacket ((pkt 1000)\<lparr>ssrc := 1111\<rparr>),
       Listener_OnConsumerSendRtpPacket ((pkt 1000)\<lparr>ssrc := 1111\<rparr>)])
   \<and> IsActive consumer0 \<and> IsActive (consumer0\<lparr>syncRequired := False\<rparr>)
   \<and> \<not> IsActive (consumer0\<lparr>paused := True\<rparr>)
   \<and> SendRtpPacket env0 (pkt 1000) (consumer0\<lparr>paused := True\<rparr>)
       = (consumer0\<lparr>paused := True\<rparr>, pkt 1000, [])"
proof -
  let ?q = "(pkt 1000)\<lparr>ssrc := 1111\<rparr>"
  let ?es = "[RtpStream_ReceivePacket ?q, Listener_OnConsumerSendRtpPacket ?q]"
  let ?c1 = "consumer0\<lparr>syncRequired := False\<rparr>"
  let ?c2 = "consumer0\<lparr>paused := True\<rparr>"
  have run: "SendRtpPacket env0 (pkt 1000) consumer0 = (?c1, pkt 1000, ?es)"
    by (rule SendRtpPacket_consumer0)
  have mem: "Listener_OnConsumerSendRtpPacket ?q \<in> set ?es"
    by simp
  have act: "IsActive consumer0 \<and> IsActive ?c1"
    using C1_active_gate [of env0 "pkt 1000" consumer0 ?c1 "pkt 1000" ?es ?q] run mem
    by blast
  have off: "\<not> IsActive ?c2"
    by (simp add: IsActive_def)
  have drop: "SendRtpPacket env0 (pkt 1000) ?c2 = (?c2, pkt 1000, [])"
    using C1_active_gate [of env0 "pkt 1000" ?c2] off
    by blast
  from run act off drop show ?thesis
    by blast
qed

text \<open>
  C2. For every packet passed to SendRtpPacket, whether it is dropped or forwarded, the
  packet's SSRC and sequence number after the call equal their values on entry.
\<close>

theorem C2_packet_fields_restored:
  "ssrc (fst (snd (SendRtpPacket env packet c))) = ssrc packet
   \<and> sequenceNumber (fst (snd (SendRtpPacket env packet c))) = sequenceNumber packet"
proof (cases "IsActive c \<and> payloadType packet \<in> supportedCodecPayloadTypes c
              \<and> \<not> (syncRequired c \<and> keyFrameSupported c \<and> \<not> isKeyFrame packet)")
  case False
  then have "SendRtpPacket env packet c = (c, packet, [])"
    by (auto simp: SendRtpPacket_def)
  then show ?thesis by simp
next
  case True
  then show ?thesis
    by (simp add: SendRtpPacket_def Let_def split: prod.splits)
qed

text \<open>
  The forwarded packet of scenario S1 reaches the listener with the outgoing SSRC 1111
  and is handed back with its own SSRC 2222 and sequence number 1000.
\<close>

theorem C2_packet_fields_restored_witness:
  "ssrc (fst (snd (SendRtpPacket env0 (pkt 1000) consumer0))) = 2222
   \<and> sequenceNumber (fst (snd (SendRtpPacket env0 (pkt 1000) consumer0))) = 1000
   \<and> map ssrc (sent (snd (snd (SendRtpPacket env0 (pkt 1000) consumer0)))) = [1111]"
  using C2_packet_fields_restored [of env0 "pkt 1000" consumer0]
  by (simp add: SendRtpPacket_consumer0) (simp add: pkt_def)

section \<open>Admission rules of SendRtpPacket\<close>

lemma SendRtpPacket_sent_keyframe:
  assumes "syncRequired c" "keyFrameSupported c"
    and "q \<in> set (sent (snd (snd (SendRtpPacket env packet c))))"
  shows "isKeyFrame packet \<and> isKeyFrame q"
proof (cases "IsActive c \<and> payloadType packet \<in> supportedCodecPayloadTypes c \<and> isKeyFrame packet")
  case False
  with assms(1,2) have "SendRtpPacket env packet c = (c, packet, [])"
    by (auto simp: SendRtpPacket_def)
  with assms(3) show ?thesis by simp
next
  case True
  with assms show ?thesis
    by (auto simp: SendRtpPacket_def Let_def split: prod.splits if_splits)
qed

text \<open>
  C4. On an active Consumer, SendRtpPacket drops a packet whose payload type is not in
  supportedCodecPayloadTypes: nothing is emitted, the send stream is not called and the
  state does not change. A packet with a supported payload type that is not a key frame
  is dropped in the same way while syncRequired and keyFrameSupported hold, and
  syncRequired stays set. So every packet that reaches the listener while syncRequired
  and keyFrameSupported hold is a key frame.
\<close>

theorem C4_admission:
  "IsActive c \<longrightarrow>
     (payloadType packet \<notin> supportedCodecPayloadTypes c
        \<longrightarrow> SendRtpPacket env packet c = (c, packet, []))
   \<and> (payloadType packet \<in> supportedCodecPayloadTypes c
        \<and> syncRequired c \<and> keyFrameSupported c \<and> \<not> isKeyFrame packet
        \<longrightarrow> SendRtpPacket env packet c = (c, packet, [])
            \<and> syncRequired (fst (SendRtpPacket env packet c)))
   \<and> (syncRequired c \<and> keyFrameSupported c
        \<and> q \<in> set (sent (snd (snd (SendRtpPacket env packet c))))
        \<longrightarrow> isKeyFrame packet \<and> isKeyFrame q)"
proof (intro impI conjI)
  assume "IsActive c" "payloadType packet \<notin> supportedCodecPayloadTypes c"
  then show "SendRtpPacket env packet c = (c, packet, [])"
    by (simp add: SendRtpPacket_def)
next
  assume "IsActive c"
    and g: "payloadType packet \<in> supportedCodecPayloadTypes c \<and> syncRequired c
            \<and> keyFrameSupported c \<and> \<not> isKeyFrame packet"
  then show d: "SendRtpPacket env packet c = (c, packet, [])"
    by (simp add: SendRtpPacket_def)
  from g show "syncRequired (fst (SendRtpPacket env packet c))"
    by (simp add: d)
next
  assume "syncRequired c \<and> keyFrameSupported c
          \<and> q \<in> set (sent (snd (snd (SendRtpPacket env packet c))))"
  then show "isKeyFrame packet" "isKeyFrame q"
    using SendRtpPacket_sent_keyframe [of c q env packet] by simp_all
qed

text \<open>
  A video Consumer waiting for a key frame: payload type 96 is dropped, a packet that is
  not a key frame is dropped, a key frame goes through.
\<close>

theorem C4_admission_witness:
  "IsActive (consumer0\<lparr>keyFrameSupported := True\<rparr>)
   \<and> payloadType ((pkt 1000)\<lparr>payloadType := 96\<rparr>)
        \<notin> supportedCodecPayloadTypes (consumer0\<lparr>keyFrameSupported := True\<rparr>)
   \<and> SendRtpPacket env0 ((pkt 1000)\<lparr>payloadType := 96\<rparr>) (consumer0\<lparr>keyFrameSupported := True\<rparr>)
       = (consumer0\<lparr>keyFrameSupported := True\<rparr>, (pkt 1000)\<lparr>payloadType := 96\<rparr>, [])
   \<and> payloadType (pkt 1000) \<in> supportedCodecPayloadTypes (consumer0\<lparr>keyFrameSupported := True\<rparr>)
   \<and> syncRequired (consumer0\<lparr>keyFrameSupported := True\<rparr>)
   \<and> keyFrameSupported (consumer0\<lparr>keyFrameSupported := True\<rparr>)
   \<and> \<not> isKeyFrame (pkt 1000)
   \<and> SendRtpPacket env0 (pkt 1000) (consumer0\<lparr>keyFrameSupported := True\<rparr>)
       = (consumer0\<lparr>keyFrameSupported := True\<rparr>, pkt 1000, [])
   \<and> (pkt 1000)\<lparr>ssrc := 1111, isKeyFrame := True\<rparr>
        \<in> set (sent (snd (snd (SendRtpPacket env0 ((pkt 1000)\<lparr>isKeyFrame := True\<rparr>)
                                  (consumer0\<lparr>keyFrameSupported := True\<rparr>)))))
   \<and> isKeyFrame ((pkt 1000)\<lparr>ssrc := 1111, isKeyFrame := True\<rparr>)"
proof -
  let ?c = "consumer0\<lparr>keyFrameSupported := True\<rparr>"
  let ?u = "(pkt 1000)\<lparr>payloadType := 96\<rparr>"
  let ?k = "(pkt 1000)\<lparr>isKeyFrame := True\<rparr>"
  let ?q = "(pkt 1000)\<lparr>ssrc := 1111, isKeyFrame := True\<rparr>"
  have act: "IsActive ?c"
    by (simp add: IsActive_def consumer0_def)
  have pt_u: "payloadType ?u \<notin> supportedCodecPayloadTypes ?c"
    by (simp add: consumer0_def)
  have pt: "payloadType (pkt 1000) \<in> supportedCodecPayloadTypes ?c"
    by (simp add: consumer0_def pkt_def)
  have sr: "syncRequired ?c" "keyFrameSupported ?c"
    by (simp_all add: consumer0_def)
  have nk: "\<not> isKeyFrame (pkt 1000)"
    by (simp add: pkt_def)
  have snt: "?q \<in> set (sent (snd (snd (SendRtpPacket env0 ?k ?c))))"
    by (simp add: SendRtpPacket_def IsActive_def consumer0_def env0_def pkt_def Sync_def
        Input_def EmitPacketEventRtpType_def newPacketEventTypes_def Let_def)
  have d1: "SendRtpPacket env0 ?u ?c = (?c, ?u, [])"
    using C4_admission [of ?c ?u env0] act pt_u by blast
  have d2: "SendRtpPacket env0 (pkt 1000) ?c = (?c, pkt 1000, [])"
    using C4_admission [of ?c "pkt 1000" env0] act pt sr nk by blast
  have kf: "isKeyFrame ?q"
    using C4_admission [of ?c ?k env0 ?q] act sr snt by blast
  from act pt_u d1 pt sr nk d2 snt kf show ?thesis
    by blast
qed
section \<open>ReceiveNack\<close>

text \<open>
  C10. ReceiveNack does nothing when the Consumer is not active: the state does not
  change and there is no effect at all, so no nack packet event is emitted, the NACK is
  not forwarded to the send stream and no retransmission results.
\<close>

theorem C10_ReceiveNack_inactive:
  "\<not> IsActive c \<Longrightarrow> ReceiveNack env nackPacket c = (c, [])"
  by (simp add: ReceiveNack_def)

theorem C10_ReceiveNack_inactive_witness:
  "\<not> IsActive (consumer0\<lparr>paused := True\<rparr>)
   \<and> ReceiveNack env0 [1000, 1001] (consumer0\<lparr>paused := True\<rparr>) = (consumer0\<lparr>paused := True\<rparr>, [])"
proof -
  have off: "\<not> IsActive (consumer0\<lparr>paused := True\<rparr>)"
    by (simp add: IsActive_def)
  with C10_ReceiveNack_inactive [of "consumer0\<lparr>paused := True\<rparr>" env0 "[1000, 1001]"]
  show ?thesis
    by blast
qed

section \<open>Sequence numbers\<close>

lemma admitted_step:
  assumes "admitted c p" and "SendRtpPacket env p c = (c', r, es)"
  shows "\<exists>q. rewritten es = [q] \<and> set (sent es) \<subseteq> {q}
           \<and> sequenceNumber q = sequenceNumber p + offset (rtpSeqManager c')
           \<and> syncBase (rtpSeqManager c') = None \<and> \<not> syncRequired c'"
proof (cases "syncRequired c")
  case True
  with assms show ?thesis
    by (auto simp: SendRtpPacket_def admitted_def Input_def Sync_def Let_def
        split: prod.splits)
next
  case False
  with assms show ?thesis
    by (cases "syncBase (rtpSeqManager c)")
      (auto simp: SendRtpPacket_def admitted_def Input_def Let_def split: prod.splits)
qed

lemma sync_step:
  assumes "admitted c p" and "syncRequired c" and "SendRtpPacket env p c = (c', r, es)"
  shows "\<exists>q. rewritten es = [q] \<and> sequenceNumber q = (sequenceNumber p - 1) + 1"
  using assms
  by (auto simp: SendRtpPacket_def admitted_def Input_def Sync_def Let_def split: prod.splits)

lemma epoch_step:
  assumes "\<not> syncRequired c" and "syncBase (rtpSeqManager c) = None"
    and "SendRtpPacket env p c = (c', r, es)"
  shows "\<not> syncRequired c' \<and> syncBase (rtpSeqManager c') = None
         \<and> offset (rtpSeqManager c') = offset (rtpSeqManager c)"
  using assms
  by (auto simp: SendRtpPacket_def Input_def Let_def split: prod.splits if_splits)

lemma SendRtpPacket_keeps_remapper:
  assumes "syncBase (rtpSeqManager c) = None" and "\<not> (admitted c p \<and> syncRequired c)"
  shows "rtpSeqManager (fst (SendRtpPacket env p c)) = rtpSeqManager c"
proof (cases "admitted c p")
  case False
  then have "SendRtpPacket env p c = (c, p, [])"
    by (auto simp: SendRtpPacket_def admitted_def)
  then show ?thesis by simp
next
  case True
  with assms(2) have "\<not> syncRequired c"
    by simp
  with True assms(1) show ?thesis
    by (simp add: SendRtpPacket_def admitted_def Input_def Let_def case_prod_beta)
qed

lemma HandleRequest_keeps_remapper:
  "rtpSeqManager (fst (SimpleConsumer_HandleRequest env dump request c)) = rtpSeqManager c"
  by (cases "methodId request")
    (auto simp: SimpleConsumer_HandleRequest_def Consumer_HandleRequest_def Let_def
      callUserOnPaused_def callUserOnResumed_def UserOnPaused_def UserOnResumed_def
      split: option.splits json.splits sum.splits)

lemma GetRtcp_keeps_remapper:
  "GetRtcp env packet streamPtr nowMs c = Inr (c', packet', es)
     \<Longrightarrow> rtpSeqManager c' = rtpSeqManager c"
  by (auto simp: GetRtcp_def Let_def case_prod_beta split: if_splits option.splits)

lemma call_keeps_remapper:
  assumes "syncBase (rtpSeqManager c) = None" and "\<not> callsSync c k"
    and "runCall env dump k c = Some (c', es)"
  shows "rtpSeqManager c' = rtpSeqManager c"
proof (cases k)
  case (SendRtpPacket_call p)
  with assms(2) have "\<not> (admitted c p \<and> syncRequired c)"
    by (simp add: callsSync_def)
  from SendRtpPacket_keeps_remapper [OF assms(1) this, of env] assms(3) SendRtpPacket_call
  show ?thesis
    by (auto simp: runCall_def Let_def case_prod_beta)
next
  case (ReceiveNack_call n)
  with assms(3) show ?thesis
    by (auto simp: runCall_def ReceiveNack_def Let_def case_prod_beta split: if_splits)
next
  case (ReceiveKeyFrameRequest_call t s)
  with assms(3) show ?thesis
    by (auto simp: runCall_def ReceiveKeyFrameRequest_def Let_def)
next
  case (GetRtcp_call packet streamPtr nowMs)
  with assms(3) show ?thesis
    by (auto simp: runCall_def split: sum.splits dest: GetRtcp_keeps_remapper)
next
  case (HandleRequest_call request)
  with assms(3) HandleRequest_keeps_remapper [of env dump request c] show ?thesis
    by (auto simp: runCall_def Let_def case_prod_beta)
next
  case ProducerPaused_call
  with assms(3) show ?thesis
    by (auto simp: runCall_def ProducerPaused_def callUserOnPaused_def UserOnPaused_def Let_def
        split: if_splits)
next
  case ProducerResumed_call
  with assms(3) show ?thesis
    by (auto simp: runCall_def ProducerResumed_def callUserOnResumed_def UserOnResumed_def Let_def
        split: if_splits)
next
  case ProducerClosed_call
  with assms(3) show ?thesis
    by (auto simp: runCall_def ProducerClosed_def Let_def)
next
  case TransportConnected_call
  with assms(3) show ?thesis
    by (auto simp: runCall_def TransportConnected_def UserOnTransportConnected_def Let_def)
next
  case TransportDisconnected_call
  with assms(3) show ?thesis
    by (auto simp: runCall_def TransportDisconnected_def UserOnTransportDisconnected_def Let_def)
qed

lemma calls_keep_remapper:
  assumes "syncBase (rtpSeqManager c) = None" and "noSync env dump ks c"
    and "runCalls env dump ks c = Some (c', es)"
  shows "rtpSeqManager c' = rtpSeqManager c"
  using assms
proof (induction ks arbitrary: c c' es)
  case Nil
  then show ?case by simp
next
  case (Cons k ks)
  from Cons.prems(3) obtain c1 es1 where r1: "runCall env dump k c = Some (c1, es1)"
    by (cases "runCall env dump k c") auto
  with Cons.prems(3) obtain es2 where r2: "runCalls env dump ks c1 = Some (c', es2)"
    by (cases "runCalls env dump ks c1") auto
  from Cons.prems(2) r1 have ns: "\<not> callsSync c k" "noSync env dump ks c1"
    by simp_all
  from call_keeps_remapper [OF Cons.prems(1) ns(1) r1]
  have m: "rtpSeqManager c1 = rtpSeqManager c" .
  with Cons.prems(1) have "syncBase (rtpSeqManager c1) = None"
    by simp
  from Cons.IH [OF this ns(2) r2] m show ?case
    by simp
qed

lemma seqHigherThan_shift:
  assumes d: "a2 - a1 = b2 - b1"
  shows "seqHigherThan a2 a1 = seqHigherThan b2 b1"
proof -
  have n1: "(a2 = a1) = (a2 - a1 = 0)"
    by simp
  have n2: "(b2 = b1) = (b2 - b1 = 0)"
    by simp
  show ?thesis
    unfolding seqHigherThan_def n1 n2 d ..
qed

text \<open>
  C3 (amended). Let P1 and P2 be admitted by SendRtpPacket, P1 first, with any calls on the
  Consumer between them of which none reaches Sync, and P2 not itself the packet of a new
  sync. Each of the two is handed to the send stream as one rewritten packet, and only
  that packet can reach the listener; the rewritten sequence numbers satisfy
  \<open>seq(P2) = seq(P1) + (origSeq(P2) - origSeq(P1))\<close> modulo \<open>2^16\<close>; and \<open>seq(P2)\<close> is higher
  than \<open>seq(P1)\<close> exactly when \<open>origSeq(P2)\<close> is higher than \<open>origSeq(P1)\<close>. A packet
  admitted while syncRequired is set comes out with the number after the base given to
  Sync, and after \<open>Sync b\<close> the next Input produces \<open>b + 1\<close>.
\<close>

theorem C3_sequence_remapping:
  "(admitted c0 p1 \<and> SendRtpPacket env p1 c0 = (c1, r1, es1)
    \<and> runCalls env dump ks c1 = Some (c2, esk) \<and> noSync env dump ks c1
    \<and> admitted c2 p2 \<and> \<not> syncRequired c2 \<and> SendRtpPacket env p2 c2 = (c3, r2, es2)
    \<longrightarrow> (\<exists>q1 q2. rewritten es1 = [q1] \<and> set (sent es1) \<subseteq> {q1}
            \<and> rewritten es2 = [q2] \<and> set (sent es2) \<subseteq> {q2}
            \<and> sequenceNumber q2
                = sequenceNumber q1 + (sequenceNumber p2 - sequenceNumber p1)
            \<and> (seqHigherThan (sequenceNumber q2) (sequenceNumber q1)
                 \<longleftrightarrow> seqHigherThan (sequenceNumber p2) (sequenceNumber p1))))
   \<and> (admitted c0 p1 \<and> syncRequired c0 \<and> SendRtpPacket env p1 c0 = (c1, r1, es1)
        \<longrightarrow> (\<exists>q1. rewritten es1 = [q1] \<and> sequenceNumber q1 = (sequenceNumber p1 - 1) + 1))
   \<and> fst (Input inp (Sync b m)) = b + 1"
proof (intro conjI impI)
  assume a: "admitted c0 p1 \<and> SendRtpPacket env p1 c0 = (c1, r1, es1)
    \<and> runCalls env dump ks c1 = Some (c2, esk) \<and> noSync env dump ks c1
    \<and> admitted c2 p2 \<and> \<not> syncRequired c2 \<and> SendRtpPacket env p2 c2 = (c3, r2, es2)"
  then have a1: "admitted c0 p1" and s1: "SendRtpPacket env p1 c0 = (c1, r1, es1)"
    and f: "runCalls env dump ks c1 = Some (c2, esk)" and ns: "noSync env dump ks c1"
    and a2: "admitted c2 p2" and nr: "\<not> syncRequired c2"
    and s2: "SendRtpPacket env p2 c2 = (c3, r2, es2)"
    by simp_all
  from admitted_step [OF a1 s1] obtain q1 where
    q1: "rewritten es1 = [q1]" "set (sent es1) \<subseteq> {q1}"
      "sequenceNumber q1 = sequenceNumber p1 + offset (rtpSeqManager c1)"
    and e1: "syncBase (rtpSeqManager c1) = None"
    by blast
  from calls_keep_remapper [OF e1 ns f]
  have m: "rtpSeqManager c2 = rtpSeqManager c1" .
  with e1 have e2: "syncBase (rtpSeqManager c2) = None"
    by simp
  from admitted_step [OF a2 s2] obtain q2 where
    q2: "rewritten es2 = [q2]" "set (sent es2) \<subseteq> {q2}"
      "sequenceNumber q2 = sequenceNumber p2 + offset (rtpSeqManager c3)"
    by blast
  from epoch_step [OF nr e2 s2] m
  have "offset (rtpSeqManager c3) = offset (rtpSeqManager c1)"
    by simp
  with q1(3) q2(3)
  have gap: "sequenceNumber q2 = sequenceNumber q1 + (sequenceNumber p2 - sequenceNumber p1)"
    by simp
  then have "sequenceNumber q2 - sequenceNumber q1 = sequenceNumber p2 - sequenceNumber p1"
    by simp
  then have "seqHigherThan (sequenceNumber q2) (sequenceNumber q1)
             = seqHigherThan (sequenceNumber p2) (sequenceNumber p1)"
    by (rule seqHigherThan_shift)
  with q1(1,2) q2(1,2) gap
  show "\<exists>q1 q2. rewritten es1 = [q1] \<and> set (sent es1) \<subseteq> {q1}
            \<and> rewritten es2 = [q2] \<and> set (sent es2) \<subseteq> {q2}
            \<and> sequenceNumber q2
                = sequenceNumber q1 + (sequenceNumber p2 - sequenceNumber p1)
            \<and> (seqHigherThan (sequenceNumber q2) (sequenceNumber q1)
                 \<longleftrightarrow> seqHigherThan (sequenceNumber p2) (sequenceNumber p1))"
    by blast
next
  assume "admitted c0 p1 \<and> syncRequired c0 \<and> SendRtpPacket env p1 c0 = (c1, r1, es1)"
  then show "\<exists>q1. rewritten es1 = [q1] \<and> sequenceNumber q1 = (sequenceNumber p1 - 1) + 1"
    using sync_step [of c0 p1 env c1 r1 es1] by blast
next
  show "fst (Input inp (Sync b m)) = b + 1"
    by (simp add: Input_def Sync_def)
qed

lemma SendRtpPacket_consumer0_sync:
  "SendRtpPacket env0 (pkt s) consumer0 =
     (consumer0\<lparr>syncRequired := False\<rparr>, pkt s,
      [RtpStream_ReceivePacket ((pkt s)\<lparr>ssrc := 1111\<rparr>),
       Listener_OnConsumerSendRtpPacket ((pkt s)\<lparr>ssrc := 1111\<rparr>)])"
  by (simp add: SendRtpPacket_def IsActive_def consumer0_def env0_def pkt_def Sync_def Input_def
      EmitPacketEventRtpType_def newPacketEventTypes_def Let_def)

lemma SendRtpPacket_consumer0_epoch:
  "SendRtpPacket env0 (pkt s) (consumer0\<lparr>syncRequired := False\<rparr>) =
     (consumer0\<lparr>syncRequired := False\<rparr>, pkt s,
      [RtpStream_ReceivePacket ((pkt s)\<lparr>ssrc := 1111\<rparr>),
       Listener_OnConsumerSendRtpPacket ((pkt s)\<lparr>ssrc := 1111\<rparr>)])"
  by (simp add: SendRtpPacket_def IsActive_def consumer0_def env0_def pkt_def Input_def
      EmitPacketEventRtpType_def newPacketEventTypes_def Let_def)

lemma admitted_consumer0:
  "admitted consumer0 (pkt s)" "admitted (consumer0\<lparr>syncRequired := False\<rparr>) (pkt s)"
  by (simp_all add: admitted_def IsActive_def consumer0_def pkt_def)

lemma ReceiveNack_consumer0_epoch:
  "ReceiveNack env0 n (consumer0\<lparr>syncRequired := False\<rparr>)
     = (consumer0\<lparr>syncRequired := False\<rparr>, [RtpStream_ReceiveNack n])"
  by (simp add: ReceiveNack_def IsActive_def consumer0_def env0_def EmitPacketEventNackType_def
      newPacketEventTypes_def Let_def)

lemma not_callsSync_consumer0_epoch:
  "\<not> callsSync (consumer0\<lparr>syncRequired := False\<rparr>) k"
  by (cases k) (simp_all add: callsSync_def)

text \<open>
  Scenario S1 with a NACK in between: the packets 1000, 1001 and 1002 on the freshly
  connected Consumer; the first is the sync packet, the third comes out two after the
  first.
\<close>

theorem C3_sequence_remapping_witness:
  "admitted consumer0 (pkt 1000) \<and> syncRequired consumer0
   \<and> SendRtpPacket env0 (pkt 1000) consumer0
       = (consumer0\<lparr>syncRequired := False\<rparr>, pkt 1000,
          [RtpStream_ReceivePacket ((pkt 1000)\<lparr>ssrc := 1111\<rparr>),
           Listener_OnConsumerSendRtpPacket ((pkt 1000)\<lparr>ssrc := 1111\<rparr>)])
   \<and> runCalls env0 dump0 [SendRtpPacket_call (pkt 1001), ReceiveNack_call [1000]]
         (consumer0\<lparr>syncRequired := False\<rparr>)
       = Some (consumer0\<lparr>syncRequired := False\<rparr>,
          [RtpStream_ReceivePacket ((pkt 1001)\<lparr>ssrc := 1111\<rparr>),
           Listener_OnConsumerSendRtpPacket ((pkt 1001)\<lparr>ssrc := 1111\<rparr>),
           RtpStream_ReceiveNack [1000]])
   \<and> noSync env0 dump0 [SendRtpPacket_call (pkt 1001), ReceiveNack_call [1000]]
         (consumer0\<lparr>syncRequired := False\<rparr>)
   \<and> admitted (consumer0\<lparr>syncRequired := False\<rparr>) (pkt 1002)
   \<and> \<not> syncRequired (consumer0\<lparr>syncRequired := False\<rparr>)
   \<and> SendRtpPacket env0 (pkt 1002) (consumer0\<lparr>syncRequired := False\<rparr>)
       = (consumer0\<lparr>syncRequired := False\<rparr>, pkt 1002,
          [RtpStream_ReceivePacket ((pkt 1002)\<lparr>ssrc := 1111\<rparr>),
           Listener_OnConsumerSendRtpPacket ((pkt 1002)\<lparr>ssrc := 1111\<rparr>)])
   \<and> (\<exists>q1 q2.
         rewritten [RtpStream_ReceivePacket ((pkt 1000)\<lparr>ssrc := 1111\<rparr>),
                    Listener_OnConsumerSendRtpPacket ((pkt 1000)\<lparr>ssrc := 1111\<rparr>)] = [q1]
         \<and> rewritten [RtpStream_ReceivePacket ((pkt 1002)\<lparr>ssrc := 1111\<rparr>),
                      Listener_OnConsumerSendRtpPacket ((pkt 1002)\<lparr>ssrc := 1111\<rparr>)] = [q2]
         \<and> sequenceNumber q2
             = sequenceNumber q1 + (sequenceNumber (pkt 1002) - sequenceNumber (pkt 1000)))"
proof -
  let ?c1 = "consumer0\<lparr>syncRequired := False\<rparr>"
  let ?es = "\<lambda>s. [RtpStream_ReceivePacket ((pkt s)\<lparr>ssrc := 1111\<rparr>),
                  Listener_OnConsumerSendRtpPacket ((pkt s)\<lparr>ssrc := 1111\<rparr>)]"
  let ?ks = "[SendRtpPacket_call (pkt 1001), ReceiveNack_call [1000]]"
  let ?esk = "[RtpStream_ReceivePacket ((pkt 1001)\<lparr>ssrc := 1111\<rparr>),
           Listener_OnConsumerSendRtpPacket ((pkt 1001)\<lparr>ssrc := 1111\<rparr>),
           RtpStream_ReceiveNack [1000]]"
  have a1: "admitted consumer0 (pkt 1000)" and a2: "admitted ?c1 (pkt 1002)"
    by (rule admitted_consumer0)+
  have sr: "syncRequired consumer0"
    by (simp add: consumer0_def)
  have nr: "\<not> syncRequired ?c1"
    by simp
  have s1: "SendRtpPacket env0 (pkt 1000) consumer0 = (?c1, pkt 1000, ?es 1000)"
    by (rule SendRtpPacket_consumer0_sync)
  have s2: "SendRtpPacket env0 (pkt 1002) ?c1 = (?c1, pkt 1002, ?es 1002)"
    by (rule SendRtpPacket_consumer0_epoch)
  have k1: "runCall env0 dump0 (SendRtpPacket_call (pkt 1001)) ?c1 = Some (?c1, ?es 1001)"
    by (simp add: runCall_def SendRtpPacket_consumer0_epoch)
  have k2: "runCall env0 dump0 (ReceiveNack_call [1000]) ?c1 = Some (?c1, [RtpStream_ReceiveNack [1000]])"
    by (simp add: runCall_def ReceiveNack_consumer0_epoch)
  have f: "runCalls env0 dump0 ?ks ?c1 = Some (?c1, ?esk)"
    by (simp add: k1 k2)
  have ns: "noSync env0 dump0 ?ks ?c1"
    by (simp add: k1 k2 not_callsSync_consumer0_epoch)
  have "\<exists>q1 q2. rewritten (?es 1000) = [q1] \<and> set (sent (?es 1000)) \<subseteq> {q1}
            \<and> rewritten (?es 1002) = [q2] \<and> set (sent (?es 1002)) \<subseteq> {q2}
            \<and> sequenceNumber q2
                = sequenceNumber q1 + (sequenceNumber (pkt 1002) - sequenceNumber (pkt 1000))
            \<and> (seqHigherThan (sequenceNumber q2) (sequenceNumber q1)
                 \<longleftrightarrow> seqHigherThan (sequenceNumber (pkt 1002)) (sequenceNumber (pkt 1000)))"
    using C3_sequence_remapping [where ?c0.0 = consumer0 and ?p1.0 = "pkt 1000" and env = env0
        and ?c1.0 = ?c1 and ?r1.0 = "pkt 1000" and ?es1.0 = "?es 1000" and dump = dump0
        and ks = ?ks and ?c2.0 = ?c1 and esk = ?esk and ?p2.0 = "pkt 1002" and ?c3.0 = ?c1
        and ?r2.0 = "pkt 1002" and ?es2.0 = "?es 1002"]
      a1 s1 f ns a2 nr s2
    by blast
  then have "\<exists>q1 q2. rewritten (?es 1000) = [q1] \<and> rewritten (?es 1002) = [q2]
            \<and> sequenceNumber q2
                = sequenceNumber q1 + (sequenceNumber (pkt 1002) - sequenceNumber (pkt 1000))"
    by blast
  with a1 sr s1 f ns a2 nr s2 show ?thesis
    by blast
qed

text \<open>
  The claim as stated fails for packets that arrive out of order: 1001 and then 1000 are
  both admitted and both reach the listener, with the sequence numbers 1001 and 1000.
\<close>

theorem C3_monotonic_counterexample:
  "map sequenceNumber (sent (snd (feedPackets env0 [pkt 1001, pkt 1000] consumer0))) = [1001, 1000]
   \<and> \<not> strictlyIncreasing
         (map sequenceNumber (sent (snd (feedPackets env0 [pkt 1001, pkt 1000] consumer0))))"
proof -
  have "feedPackets env0 [pkt 1001, pkt 1000] consumer0
          = (consumer0\<lparr>syncRequired := False\<rparr>,
             [RtpStream_ReceivePacket ((pkt 1001)\<lparr>ssrc := 1111\<rparr>),
              Listener_OnConsumerSendRtpPacket ((pkt 1001)\<lparr>ssrc := 1111\<rparr>),
              RtpStream_ReceivePacket ((pkt 1000)\<lparr>ssrc := 1111\<rparr>),
              Listener_OnConsumerSendRtpPacket ((pkt 1000)\<lparr>ssrc := 1111\<rparr>)])"
    by (simp add: SendRtpPacket_consumer0_sync SendRtpPacket_consumer0_epoch)
  then have m: "map sequenceNumber (sent (snd (feedPackets env0 [pkt 1001, pkt 1000] consumer0)))
                 = [1001, 1000]"
    by (simp add: pkt_def)
  have "\<not> strictlyIncreasing [1001, 1000]"
    by (simp add: seqHigherThan_def unsigned_minus_1_eq_mask mask_eq_exp_minus_1)
  with m show ?thesis
    by simp
qed

section \<open>GetRtcp\<close>

text \<open>
  C5 (amended). Called with the Consumer's own send stream, GetRtcp does nothing when
  \<open>(nowMs - lastRtcpSentTime) * 1.15 < maxRtcpInterval\<close>. Otherwise it asks the send
  stream for a sender report: when there is none, it appends nothing and leaves
  lastRtcpSentTime as it is; when there is one, it appends the report and the SDES chunk
  to the compound packet and sets \<open>lastRtcpSentTime = nowMs\<close>.
\<close>

theorem C5_GetRtcp:
  "streamPtr = rtpStreamPtr c \<longrightarrow>
     (rtcpTooSoon nowMs (lastRtcpSentTime c) (maxRtcpInterval c)
        \<longrightarrow> GetRtcp env packet streamPtr nowMs c = Inr (c, packet, []))
   \<and> (\<not> rtcpTooSoon nowMs (lastRtcpSentTime c) (maxRtcpInterval c)
        \<and> fst (GetRtcpSenderReport env nowMs (rtpStream c)) = None
        \<longrightarrow> GetRtcp env packet streamPtr nowMs c
              = Inr (c\<lparr>rtpStream := snd (GetRtcpSenderReport env nowMs (rtpStream c))\<rparr>, packet,
                     [RtpStream_GetRtcpSenderReport nowMs]))
   \<and> (\<not> rtcpTooSoon nowMs (lastRtcpSentTime c) (maxRtcpInterval c)
        \<and> fst (GetRtcpSenderReport env nowMs (rtpStream c)) = Some r
        \<longrightarrow> GetRtcp env packet streamPtr nowMs c
              = Inr (c\<lparr>rtpStream :=
                         snd (GetRtcpSdesChunk env (snd (GetRtcpSenderReport env nowMs (rtpStream c)))),
                       lastRtcpSentTime := nowMs\<rparr>,
                     packet\<lparr>senderReports := senderReports packet @ [r],
                            sdesChunks := sdesChunks packet @
                              [fst (GetRtcpSdesChunk env (snd (GetRtcpSenderReport env nowMs (rtpStream c))))]\<rparr>,
                     [RtpStream_GetRtcpSenderReport nowMs, RtpStream_GetRtcpSdesChunk]))"
proof (intro impI conjI)
  assume "streamPtr = rtpStreamPtr c"
    and "rtcpTooSoon nowMs (lastRtcpSentTime c) (maxRtcpInterval c)"
  then show "GetRtcp env packet streamPtr nowMs c = Inr (c, packet, [])"
    by (simp add: GetRtcp_def)
next
  assume "streamPtr = rtpStreamPtr c"
    and "\<not> rtcpTooSoon nowMs (lastRtcpSentTime c) (maxRtcpInterval c)
         \<and> fst (GetRtcpSenderReport env nowMs (rtpStream c)) = None"
  then show "GetRtcp env packet streamPtr nowMs c
              = Inr (c\<lparr>rtpStream := snd (GetRtcpSenderReport env nowMs (rtpStream c))\<rparr>, packet,
                     [RtpStream_GetRtcpSenderReport nowMs])"
    by (simp add: GetRtcp_def Let_def case_prod_beta)
next
  assume "streamPtr = rtpStreamPtr c"
    and "\<not> rtcpTooSoon nowMs (lastRtcpSentTime c) (maxRtcpInterval c)
         \<and> fst (GetRtcpSenderReport env nowMs (rtpStream c)) = Some r"
  then show "GetRtcp env packet streamPtr nowMs c
              = Inr (c\<lparr>rtpStream :=
                         snd (GetRtcpSdesChunk env (snd (GetRtcpSenderReport env nowMs (rtpStream c)))),
                       lastRtcpSentTime := nowMs\<rparr>,
                     packet\<lparr>senderReports := senderReports packet @ [r],
                            sdesChunks := sdesChunks packet @
                              [fst (GetRtcpSdesChunk env (snd (GetRtcpSenderReport env nowMs (rtpStream c))))]\<rparr>,
                     [RtpStream_GetRtcpSenderReport nowMs, RtpStream_GetRtcpSdesChunk])"
    by (simp add: GetRtcp_def Let_def AddSenderReport_def AddSdesChunk_def case_prod_beta)
qed

text \<open>
  Scenario S6 with the audio interval of 5000 ms: a call at 4000 ms after the last report
  does nothing, a call at 4500 ms appends the report and the chunk and records the time.
\<close>

theorem C5_GetRtcp_witness:
  "(7::nat) = rtpStreamPtr consumer0
   \<and> rtcpTooSoon 4000 (lastRtcpSentTime consumer0) (maxRtcpInterval consumer0)
   \<and> GetRtcp env1 compound0 7 4000 consumer0 = Inr (consumer0, compound0, [])
   \<and> \<not> rtcpTooSoon 4500 (lastRtcpSentTime consumer0) (maxRtcpInterval consumer0)
   \<and> fst (GetRtcpSenderReport env1 4500 (rtpStream consumer0)) = Some report0
   \<and> GetRtcp env1 compound0 7 4500 consumer0
       = Inr (consumer0\<lparr>lastRtcpSentTime := 4500\<rparr>,
              \<lparr>senderReports = [report0], sdesChunks = [\<lparr>cname = ''cname''\<rparr>]\<rparr>,
              [RtpStream_GetRtcpSenderReport 4500, RtpStream_GetRtcpSdesChunk])"
proof -
  have p: "(7::nat) = rtpStreamPtr consumer0"
    by (simp add: consumer0_def)
  have soon: "rtcpTooSoon 4000 (lastRtcpSentTime consumer0) (maxRtcpInterval consumer0)"
    by (simp add: rtcpTooSoon_def consumer0_def)
  have due: "\<not> rtcpTooSoon 4500 (lastRtcpSentTime consumer0) (maxRtcpInterval consumer0)"
    by (simp add: rtcpTooSoon_def consumer0_def)
  have rep: "fst (GetRtcpSenderReport env1 4500 (rtpStream consumer0)) = Some report0"
    by (simp add: env1_def)
  have a: "GetRtcp env1 compound0 7 4000 consumer0 = Inr (consumer0, compound0, [])"
    using C5_GetRtcp [of 7 consumer0 4000 env1 compound0] p soon by blast
  have "GetRtcp env1 compound0 7 4500 consumer0
              = Inr (consumer0\<lparr>rtpStream :=
                         snd (GetRtcpSdesChunk env1 (snd (GetRtcpSenderReport env1 4500 (rtpStream consumer0)))),
                       lastRtcpSentTime := 4500\<rparr>,
                     compound0\<lparr>senderReports := senderReports compound0 @ [report0],
                            sdesChunks := sdesChunks compound0 @
                              [fst (GetRtcpSdesChunk env1 (snd (GetRtcpSenderReport env1 4500 (rtpStream consumer0))))]\<rparr>,
                     [RtpStream_GetRtcpSenderReport 4500, RtpStream_GetRtcpSdesChunk])"
    using C5_GetRtcp [of 7 consumer0 4500 env1 compound0 report0] p due rep by blast
  moreover have "consumer0\<lparr>rtpStream :=
                         snd (GetRtcpSdesChunk env1 (snd (GetRtcpSenderReport env1 4500 (rtpStream consumer0)))),
                       lastRtcpSentTime := 4500\<rparr> = consumer0\<lparr>lastRtcpSentTime := 4500\<rparr>"
    by (simp add: consumer0_def)
  moreover have "compound0\<lparr>senderReports := senderReports compound0 @ [report0],
                            sdesChunks := sdesChunks compound0 @
                              [fst (GetRtcpSdesChunk env1 (snd (GetRtcpSenderReport env1 4500 (rtpStream consumer0))))]\<rparr>
                 = \<lparr>senderReports = [report0], sdesChunks = [\<lparr>cname = ''cname''\<rparr>]\<rparr>"
    by (simp add: compound0_def env1_def env0_def)
  ultimately have b: "GetRtcp env1 compound0 7 4500 consumer0
       = Inr (consumer0\<lparr>lastRtcpSentTime := 4500\<rparr>,
              \<lparr>senderReports = [report0], sdesChunks = [\<lparr>cname = ''cname''\<rparr>]\<rparr>,
              [RtpStream_GetRtcpSenderReport 4500, RtpStream_GetRtcpSdesChunk])"
    by (simp only:)
  from p soon a due rep b show ?thesis
    by blast
qed

text \<open>
  The claim as stated fails when the send stream has no sender report yet: 10000 ms after
  the last report the interval has passed, but nothing is appended and lastRtcpSentTime
  stays 0.
\<close>

theorem C5_GetRtcp_counterexample:
  "\<not> rtcpTooSoon 10000 (lastRtcpSentTime consumer0) (maxRtcpInterval consumer0)
   \<and> GetRtcp env0 compound0 7 10000 consumer0
       = Inr (consumer0, compound0, [RtpStream_GetRtcpSenderReport 10000])
   \<and> lastRtcpSentTime consumer0 \<noteq> 10000"
  by (simp add: rtcpTooSoon_def GetRtcp_def consumer0_def env0_def Let_def)

section \<open>Requests\<close>

lemma fillPacketEventTypes_error:
  "(\<exists>e. fillPacketEventTypes tys acc = Inl e) \<longleftrightarrow> (\<exists>t \<in> set tys. \<not> is_string t)"
  by (induction tys arbitrary: acc) (auto split: json.splits)

lemma fillPacketEventTypes_TypeError:
  "fillPacketEventTypes tys acc = Inl e \<Longrightarrow> e = TypeError ''wrong type (not a string)''"
  by (induction tys arbitrary: acc) (auto split: json.splits)

lemma fillPacketEventTypes_result:
  "fillPacketEventTypes tys acc = Inr new \<Longrightarrow>
     new = \<lparr>rtp = rtp acc \<or> JString ''rtp'' \<in> set tys,
            nack = nack acc \<or> JString ''nack'' \<in> set tys,
            pli = pli acc \<or> JString ''pli'' \<in> set tys,
            fir = fir acc \<or> JString ''fir'' \<in> set tys\<rparr>"
proof (induction tys arbitrary: acc)
  case Nil
  then show ?case by simp
next
  case (Cons ty tys)
  then obtain s where ty: "ty = JString s"
    by (cases ty) auto
  let ?acc' = "(if s = ''rtp'' then acc\<lparr>rtp := True\<rparr>
             else if s = ''nack'' then acc\<lparr>nack := True\<rparr>
             else if s = ''pli'' then acc\<lparr>pli := True\<rparr>
             else if s = ''fir'' then acc\<lparr>fir := True\<rparr>
             else acc)"
  from Cons.prems ty have "fillPacketEventTypes tys ?acc' = Inr new"
    by simp
  from Cons.IH [OF this] ty show ?case
    by (auto split: if_splits)
qed

lemma enable_no_types:
  assumes "methodId request = CONSUMER_ENABLE_PACKET_EVENT"
    and "\<forall>tys. json_find ''types'' (data request) \<noteq> Some (JArray tys)"
  shows "Consumer_HandleRequest env dump request c
           = (c, [], Some (TypeError ''wrong types (not an array)''))"
proof (cases "json_find ''types'' (data request)")
  case None
  with assms(1) show ?thesis
    by (simp add: Consumer_HandleRequest_def)
next
  case (Some j)
  with assms(2) have "\<forall>tys. j \<noteq> JArray tys"
    by simp
  with Some assms(1) show ?thesis
    by (cases j) (simp_all add: Consumer_HandleRequest_def)
qed

lemma enable_bad_element:
  assumes "methodId request = CONSUMER_ENABLE_PACKET_EVENT"
    and "json_find ''types'' (data request) = Some (JArray tys)"
    and "\<exists>t \<in> set tys. \<not> is_string t"
  shows "Consumer_HandleRequest env dump request c
           = (c, [], Some (TypeError ''wrong type (not a string)''))"
proof -
  from assms(3) obtain e where e: "fillPacketEventTypes tys newPacketEventTypes = Inl e"
    using fillPacketEventTypes_error [of tys newPacketEventTypes] by blast
  then have "e = TypeError ''wrong type (not a string)''"
    by (rule fillPacketEventTypes_TypeError)
  with e assms(1,2) show ?thesis
    by (simp add: Consumer_HandleRequest_def)
qed

lemma enable_accept:
  assumes "methodId request = CONSUMER_ENABLE_PACKET_EVENT"
    and "json_find ''types'' (data request) = Some (JArray tys)"
    and "\<forall>t \<in> set tys. is_string t"
  shows "Consumer_HandleRequest env dump request c
           = (c\<lparr>packetEventTypes :=
                  \<lparr>rtp = JString ''rtp'' \<in> set tys, nack = JString ''nack'' \<in> set tys,
                   pli = JString ''pli'' \<in> set tys, fir = JString ''fir'' \<in> set tys\<rparr>\<rparr>,
              [Request_Accept None], None)"
proof -
  from assms(3) have "\<not> (\<exists>e. fillPacketEventTypes tys newPacketEventTypes = Inl e)"
    using fillPacketEventTypes_error [of tys newPacketEventTypes] by blast
  then obtain new where new: "fillPacketEventTypes tys newPacketEventTypes = Inr new"
    by (cases "fillPacketEventTypes tys newPacketEventTypes") auto
  from fillPacketEventTypes_result [OF this]
  have "new = \<lparr>rtp = JString ''rtp'' \<in> set tys, nack = JString ''nack'' \<in> set tys,
               pli = JString ''pli'' \<in> set tys, fir = JString ''fir'' \<in> set tys\<rparr>"
    by (simp add: newPacketEventTypes_def)
  with new assms(1,2) show ?thesis
    by (simp add: Consumer_HandleRequest_def)
qed

text \<open>
  C6. A CONSUMER_ENABLE_PACKET_EVENT request ends with a TypeError if and only if the
  field \<open>types\<close> is missing, or is not an array, or has an element that is not a string.
  Whenever the request ends with an exception the Consumer is unchanged and nothing is
  acknowledged. Otherwise the request is accepted and packetEventTypes becomes exactly the
  set of those of rtp, nack, pli and fir that occur in the array; other strings are
  ignored.
\<close>

theorem C6_enable_packet_event:
  assumes "methodId request = CONSUMER_ENABLE_PACKET_EVENT"
  shows
    "((\<exists>msg. snd (snd (Consumer_HandleRequest env dump request c)) = Some (TypeError msg))
        \<longleftrightarrow> json_find ''types'' (data request) = None
            \<or> (\<exists>j. json_find ''types'' (data request) = Some j \<and> \<not> is_array j)
            \<or> (\<exists>tys. json_find ''types'' (data request) = Some (JArray tys)
                  \<and> (\<exists>t \<in> set tys. \<not> is_string t)))
     \<and> (snd (snd (Consumer_HandleRequest env dump request c)) \<noteq> None
          \<longrightarrow> fst (Consumer_HandleRequest env dump request c) = c
              \<and> fst (snd (Consumer_HandleRequest env dump request c)) = [])
     \<and> (\<forall>tys. json_find ''types'' (data request) = Some (JArray tys)
               \<and> (\<forall>t \<in> set tys. is_string t)
          \<longrightarrow> Consumer_HandleRequest env dump request c
                = (c\<lparr>packetEventTypes :=
                       \<lparr>rtp = JString ''rtp'' \<in> set tys, nack = JString ''nack'' \<in> set tys,
                        pli = JString ''pli'' \<in> set tys, fir = JString ''fir'' \<in> set tys\<rparr>\<rparr>,
                   [Request_Accept None], None))"
proof -
  let ?r = "Consumer_HandleRequest env dump request c"
  let ?f = "json_find ''types'' (data request)"
  consider (none) "\<forall>tys. ?f \<noteq> Some (JArray tys)"
    | (bad) tys where "?f = Some (JArray tys)" "\<exists>t \<in> set tys. \<not> is_string t"
    | (good) tys where "?f = Some (JArray tys)" "\<forall>t \<in> set tys. is_string t"
    by blast
  then show ?thesis
  proof cases
    case none
    have r: "?r = (c, [], Some (TypeError ''wrong types (not an array)''))"
      using assms none by (rule enable_no_types)
    have "?f = None \<or> (\<exists>j. ?f = Some j \<and> \<not> is_array j)"
    proof (cases ?f)
      case None
      then show ?thesis by simp
    next
      case (Some j)
      with none have "\<not> is_array j"
        by (cases j) auto
      with Some show ?thesis by simp
    qed
    with r none show ?thesis
      by auto
  next
    case bad
    have r: "?r = (c, [], Some (TypeError ''wrong type (not a string)''))"
      using assms bad by (rule enable_bad_element)
    with bad show ?thesis
      by auto
  next
    case good
    have r: "?r = (c\<lparr>packetEventTypes :=
                       \<lparr>rtp = JString ''rtp'' \<in> set tys, nack = JString ''nack'' \<in> set tys,
                        pli = JString ''pli'' \<in> set tys, fir = JString ''fir'' \<in> set tys\<rparr>\<rparr>,
                   [Request_Accept None], None)"
      using assms good by (rule enable_accept)
    with good show ?thesis
      by auto
  qed
qed

text \<open>
  Scenario S5: the types rtp, garbage and nack are accepted and switch on rtp and nack; a
  request without \<open>types\<close> ends with a TypeError and leaves the Consumer as it was.
\<close>

theorem C6_enable_packet_event_witness:
  "methodId (enableRequest (JObject [(''types'', JArray [JString ''rtp'', JString ''garbage'', JString ''nack''])]))
     = CONSUMER_ENABLE_PACKET_EVENT
   \<and> Consumer_HandleRequest env0 dump0
        (enableRequest (JObject [(''types'', JArray [JString ''rtp'', JString ''garbage'', JString ''nack''])]))
        consumer0
      = (consumer0\<lparr>packetEventTypes := \<lparr>rtp = True, nack = True, pli = False, fir = False\<rparr>\<rparr>,
         [Request_Accept None], None)
   \<and> (\<exists>msg. snd (snd (Consumer_HandleRequest env0 dump0 (enableRequest (JObject [])) consumer0))
              = Some (TypeError msg))
   \<and> fst (Consumer_HandleRequest env0 dump0 (enableRequest (JObject [])) consumer0) = consumer0"
proof -
  let ?tys = "[JString ''rtp'', JString ''garbage'', JString ''nack'']"
  let ?ok = "enableRequest (JObject [(''types'', JArray ?tys)])"
  let ?no = "enableRequest (JObject [])"
  have m1: "methodId ?ok = CONSUMER_ENABLE_PACKET_EVENT"
    and m2: "methodId ?no = CONSUMER_ENABLE_PACKET_EVENT"
    by (simp_all add: enableRequest_def)
  have f1: "json_find ''types'' (data ?ok) = Some (JArray ?tys) \<and> (\<forall>t \<in> set ?tys. is_string t)"
    by (simp add: enableRequest_def)
  have f2: "json_find ''types'' (data ?no) = None"
    by (simp add: enableRequest_def)
  have "Consumer_HandleRequest env0 dump0 ?ok consumer0
      = (consumer0\<lparr>packetEventTypes :=
            \<lparr>rtp = JString ''rtp'' \<in> set ?tys, nack = JString ''nack'' \<in> set ?tys,
             pli = JString ''pli'' \<in> set ?tys, fir = JString ''fir'' \<in> set ?tys\<rparr>\<rparr>,
         [Request_Accept None], None)"
    using C6_enable_packet_event [OF m1, of env0 dump0 consumer0] f1 by blast
  then have a: "Consumer_HandleRequest env0 dump0 ?ok consumer0
      = (consumer0\<lparr>packetEventTypes := \<lparr>rtp = True, nack = True, pli = False, fir = False\<rparr>\<rparr>,
         [Request_Accept None], None)"
    by simp
  have b: "\<exists>msg. snd (snd (Consumer_HandleRequest env0 dump0 ?no consumer0)) = Some (TypeError msg)"
    using C6_enable_packet_event [OF m2, of env0 dump0 consumer0] f2 by blast
  then have "snd (snd (Consumer_HandleRequest env0 dump0 ?no consumer0)) \<noteq> None"
    by auto
  then have c: "fst (Consumer_HandleRequest env0 dump0 ?no consumer0) = consumer0"
    using C6_enable_packet_event [OF m2, of env0 dump0 consumer0] by blast
  from m1 a b c show ?thesis
    by blast
qed

lemma IsActive_updates [simp]:
  "IsActive (c\<lparr>syncRequired := b\<rparr>) = IsActive c"
  "IsActive (c\<lparr>rtpStream := r\<rparr>) = IsActive c"
  "IsActive (c\<lparr>packetEventTypes := t\<rparr>) = IsActive c"
  "IsActive (c\<lparr>rtpSeqManager := m\<rparr>) = IsActive c"
  "\<not> IsActive (c\<lparr>paused := True\<rparr>)"
  "\<not> IsActive (c\<lparr>producerPaused := True\<rparr>)"
  "\<not> IsActive (c\<lparr>producerClosed := True\<rparr>)"
  by (simp_all add: IsActive_def)

lemma pause_paused:
  "methodId request = CONSUMER_PAUSE \<Longrightarrow> paused c \<Longrightarrow>
     Consumer_HandleRequest env dump request c = (c, [Request_Accept None], None)"
  by (simp add: Consumer_HandleRequest_def)

lemma pause_active:
  "methodId request = CONSUMER_PAUSE \<Longrightarrow> \<not> paused c \<Longrightarrow> IsActive c \<Longrightarrow>
     Consumer_HandleRequest env dump request c
       = (c\<lparr>paused := True, rtpStream := Pause env (rtpStream c)\<rparr>,
          [Call_UserOnPaused, RtpStream_Pause, Request_Accept None], None)"
  by (simp add: Consumer_HandleRequest_def callUserOnPaused_def UserOnPaused_def)

lemma pause_inactive:
  "methodId request = CONSUMER_PAUSE \<Longrightarrow> \<not> paused c \<Longrightarrow> \<not> IsActive c \<Longrightarrow>
     Consumer_HandleRequest env dump request c = (c\<lparr>paused := True\<rparr>, [Request_Accept None], None)"
  by (simp add: Consumer_HandleRequest_def)

lemma resume_resumed:
  "methodId request = CONSUMER_RESUME \<Longrightarrow> \<not> paused c \<Longrightarrow>
     Consumer_HandleRequest env dump request c = (c, [Request_Accept None], None)"
  by (simp add: Consumer_HandleRequest_def)

lemma resume_active:
  "methodId request = CONSUMER_RESUME \<Longrightarrow> paused c \<Longrightarrow> IsActive (c\<lparr>paused := False\<rparr>) \<Longrightarrow>
     Consumer_HandleRequest env dump request c
       = (c\<lparr>paused := False, syncRequired := True\<rparr>,
          Call_UserOnResumed # RequestKeyFrame (c\<lparr>paused := False, syncRequired := True\<rparr>)
            @ [Request_Accept None], None)"
  by (simp add: Consumer_HandleRequest_def callUserOnResumed_def UserOnResumed_def Let_def)

lemma resume_inactive:
  "methodId request = CONSUMER_RESUME \<Longrightarrow> paused c \<Longrightarrow> \<not> IsActive (c\<lparr>paused := False\<rparr>) \<Longrightarrow>
     Consumer_HandleRequest env dump request c = (c\<lparr>paused := False\<rparr>, [Request_Accept None], None)"
  by (simp add: Consumer_HandleRequest_def)

lemma count_RequestKeyFrame [simp]:
  "count_list (RequestKeyFrame c) (Request_Accept None) = 0"
  "count_list (RequestKeyFrame c) Call_UserOnResumed = 0"
  by (simp_all add: RequestKeyFrame_def Let_def)

text \<open>
  C7. CONSUMER_PAUSE never throws, accepts exactly once and leaves the Consumer paused; on
  a paused Consumer it does nothing else; otherwise UserOnPaused is called once if the
  Consumer was active before the change and not at all if it was not; a second PAUSE only
  accepts. CONSUMER_RESUME never throws, accepts exactly once and leaves the Consumer not
  paused; on a Consumer that is not paused it does nothing else; otherwise UserOnResumed
  is called once if the Consumer is active after the change and not at all if it is not;
  a second RESUME only accepts.
\<close>

theorem C7_pause_resume:
  "(methodId request = CONSUMER_PAUSE \<longrightarrow>
      snd (snd (Consumer_HandleRequest env dump request c)) = None
      \<and> count_list (fst (snd (Consumer_HandleRequest env dump request c))) (Request_Accept None) = 1
      \<and> paused (fst (Consumer_HandleRequest env dump request c))
      \<and> (paused c \<longrightarrow> Consumer_HandleRequest env dump request c = (c, [Request_Accept None], None))
      \<and> (\<not> paused c \<longrightarrow>
            count_list (fst (snd (Consumer_HandleRequest env dump request c))) Call_UserOnPaused
              = (if IsActive c then 1 else 0))
      \<and> Consumer_HandleRequest env dump request (fst (Consumer_HandleRequest env dump request c))
          = (fst (Consumer_HandleRequest env dump request c), [Request_Accept None], None))
   \<and> (methodId request = CONSUMER_RESUME \<longrightarrow>
      snd (snd (Consumer_HandleRequest env dump request c)) = None
      \<and> count_list (fst (snd (Consumer_HandleRequest env dump request c))) (Request_Accept None) = 1
      \<and> \<not> paused (fst (Consumer_HandleRequest env dump request c))
      \<and> (\<not> paused c \<longrightarrow> Consumer_HandleRequest env dump request c = (c, [Request_Accept None], None))
      \<and> (paused c \<longrightarrow>
            count_list (fst (snd (Consumer_HandleRequest env dump request c))) Call_UserOnResumed
              = (if IsActive (fst (Consumer_HandleRequest env dump request c)) then 1 else 0))
      \<and> Consumer_HandleRequest env dump request (fst (Consumer_HandleRequest env dump request c))
          = (fst (Consumer_HandleRequest env dump request c), [Request_Accept None], None))"
proof (intro conjI impI)
  assume m: "methodId request = CONSUMER_PAUSE"
  let ?r = "Consumer_HandleRequest env dump request c"
  consider (p) "paused c" | (a) "\<not> paused c" "IsActive c" | (i) "\<not> paused c" "\<not> IsActive c"
    by blast
  then have "snd (snd ?r) = None \<and> count_list (fst (snd ?r)) (Request_Accept None) = 1
      \<and> paused (fst ?r)
      \<and> (paused c \<longrightarrow> ?r = (c, [Request_Accept None], None))
      \<and> (\<not> paused c \<longrightarrow> count_list (fst (snd ?r)) Call_UserOnPaused = (if IsActive c then 1 else 0))"
  proof cases
    case p
    with m show ?thesis by (simp add: pause_paused)
  next
    case a
    with m show ?thesis by (simp add: pause_active)
  next
    case i
    with m show ?thesis by (simp add: pause_inactive)
  qed
  then show "snd (snd ?r) = None"
    and "count_list (fst (snd ?r)) (Request_Accept None) = 1"
    and pd: "paused (fst ?r)"
    and "paused c \<Longrightarrow> ?r = (c, [Request_Accept None], None)"
    and "\<not> paused c \<Longrightarrow> count_list (fst (snd ?r)) Call_UserOnPaused = (if IsActive c then 1 else 0)"
    by simp_all
  from m pd show "Consumer_HandleRequest env dump request (fst ?r) = (fst ?r, [Request_Accept None], None)"
    by (rule pause_paused)
next
  assume m: "methodId request = CONSUMER_RESUME"
  let ?r = "Consumer_HandleRequest env dump request c"
  consider (r) "\<not> paused c" | (a) "paused c" "IsActive (c\<lparr>paused := False\<rparr>)"
    | (i) "paused c" "\<not> IsActive (c\<lparr>paused := False\<rparr>)"
    by blast
  then have "snd (snd ?r) = None \<and> count_list (fst (snd ?r)) (Request_Accept None) = 1
      \<and> \<not> paused (fst ?r)
      \<and> (\<not> paused c \<longrightarrow> ?r = (c, [Request_Accept None], None))
      \<and> (paused c \<longrightarrow> count_list (fst (snd ?r)) Call_UserOnResumed
                          = (if IsActive (fst ?r) then 1 else 0))"
  proof cases
    case r
    with m show ?thesis by (simp add: resume_resumed)
  next
    case a
    with m show ?thesis by (simp add: resume_active)
  next
    case i
    with m show ?thesis by (simp add: resume_inactive)
  qed
  then show "snd (snd ?r) = None"
    and "count_list (fst (snd ?r)) (Request_Accept None) = 1"
    and pd: "\<not> paused (fst ?r)"
    and "\<not> paused c \<Longrightarrow> ?r = (c, [Request_Accept None], None)"
    and "paused c \<Longrightarrow> count_list (fst (snd ?r)) Call_UserOnResumed
                          = (if IsActive (fst ?r) then 1 else 0)"
    by simp_all
  from m pd show "Consumer_HandleRequest env dump request (fst ?r) = (fst ?r, [Request_Accept None], None)"
    by (rule resume_resumed)
qed

text \<open>
  Scenario S3: pausing the active Consumer calls UserOnPaused once, which pauses the send
  stream; resuming it calls UserOnResumed once.
\<close>

theorem C7_pause_resume_witness:
  "methodId pauseRequest = CONSUMER_PAUSE \<and> \<not> paused consumer0 \<and> IsActive consumer0
   \<and> count_list (fst (snd (Consumer_HandleRequest env0 dump0 pauseRequest consumer0))) Call_UserOnPaused = 1
   \<and> methodId resumeRequest = CONSUMER_RESUME \<and> paused (consumer0\<lparr>paused := True\<rparr>)
   \<and> \<not> paused (fst (Consumer_HandleRequest env0 dump0 resumeRequest (consumer0\<lparr>paused := True\<rparr>)))
   \<and> Consumer_HandleRequest env0 dump0 resumeRequest consumer0 = (consumer0, [Request_Accept None], None)"
proof -
  have m1: "methodId pauseRequest = CONSUMER_PAUSE"
    by (simp add: pauseRequest_def)
  have m2: "methodId resumeRequest = CONSUMER_RESUME"
    by (simp add: resumeRequest_def)
  have np: "\<not> paused consumer0"
    by (simp add: consumer0_def)
  have act: "IsActive consumer0"
    by (simp add: IsActive_def consumer0_def)
  have pp: "paused (consumer0\<lparr>paused := True\<rparr>)"
    by simp
  have a: "count_list (fst (snd (Consumer_HandleRequest env0 dump0 pauseRequest consumer0))) Call_UserOnPaused
             = (if IsActive consumer0 then 1 else 0)"
    using C7_pause_resume [of pauseRequest env0 dump0 consumer0] m1 np by blast
  have b: "\<not> paused (fst (Consumer_HandleRequest env0 dump0 resumeRequest (consumer0\<lparr>paused := True\<rparr>)))"
    using C7_pause_resume [of resumeRequest env0 dump0 "consumer0\<lparr>paused := True\<rparr>"] m2 by blast
  have c: "Consumer_HandleRequest env0 dump0 resumeRequest consumer0 = (consumer0, [Request_Accept None], None)"
    using C7_pause_resume [of resumeRequest env0 dump0 consumer0] m2 np by blast
  from a act have a': "count_list (fst (snd (Consumer_HandleRequest env0 dump0 pauseRequest consumer0)))
      Call_UserOnPaused = 1"
    by simp
  from m1 np act a' m2 pp b c show ?thesis
    by blast
qed

lemma ProducerPaused_sets:
  "producerPaused (fst (ProducerPaused env c))"
  by (simp add: ProducerPaused_def callUserOnPaused_def UserOnPaused_def Let_def)

lemma ProducerResumed_clears:
  "\<not> producerPaused (fst (ProducerResumed env c))"
  by (simp add: ProducerResumed_def callUserOnResumed_def UserOnResumed_def Let_def)

text \<open>
  C8 (amended). ProducerPaused on a Consumer whose producer is already paused, and
  ProducerResumed on one whose producer is not paused, return early: no flag changes and
  there is no effect; so a second call of either does nothing. ProducerClosed has no such
  guard: a second call leaves the state as the first call made it, and again emits
  \<open>producerclose\<close> and signals the listener.
\<close>

theorem C8_producer_events:
  "(producerPaused c \<longrightarrow> ProducerPaused env c = (c, []))
   \<and> ProducerPaused env (fst (ProducerPaused env c)) = (fst (ProducerPaused env c), [])
   \<and> (\<not> producerPaused c \<longrightarrow> ProducerResumed env c = (c, []))
   \<and> ProducerResumed env (fst (ProducerResumed env c)) = (fst (ProducerResumed env c), [])
   \<and> fst (ProducerClosed (fst (ProducerClosed c))) = fst (ProducerClosed c)
   \<and> snd (ProducerClosed (fst (ProducerClosed c)))
       = [Notifier_Emit (consumerId c) ''producerclose'' None, Listener_OnConsumerProducerClosed]"
proof (intro conjI impI)
  show "producerPaused c \<Longrightarrow> ProducerPaused env c = (c, [])"
    by (simp add: ProducerPaused_def)
  show "\<not> producerPaused c \<Longrightarrow> ProducerResumed env c = (c, [])"
    by (simp add: ProducerResumed_def)
  show "ProducerPaused env (fst (ProducerPaused env c)) = (fst (ProducerPaused env c), [])"
    using ProducerPaused_sets [of env c] by (simp add: ProducerPaused_def [of env "fst (ProducerPaused env c)"])
  show "ProducerResumed env (fst (ProducerResumed env c)) = (fst (ProducerResumed env c), [])"
    using ProducerResumed_clears [of env c] by (simp add: ProducerResumed_def [of env "fst (ProducerResumed env c)"])
  show "fst (ProducerClosed (fst (ProducerClosed c))) = fst (ProducerClosed c)"
    by (simp add: ProducerClosed_def Let_def)
  show "snd (ProducerClosed (fst (ProducerClosed c)))
       = [Notifier_Emit (consumerId c) ''producerclose'' None, Listener_OnConsumerProducerClosed]"
    by (simp add: ProducerClosed_def Let_def)
qed

text \<open>The early returns of ProducerPaused and ProducerResumed on the scenario's Consumer.\<close>

theorem C8_producer_events_witness:
  "producerPaused (consumer0\<lparr>producerPaused := True\<rparr>)
   \<and> ProducerPaused env0 (consumer0\<lparr>producerPaused := True\<rparr>) = (consumer0\<lparr>producerPaused := True\<rparr>, [])
   \<and> \<not> producerPaused consumer0
   \<and> ProducerResumed env0 consumer0 = (consumer0, [])"
proof -
  have p: "producerPaused (consumer0\<lparr>producerPaused := True\<rparr>)"
    by simp
  have n: "\<not> producerPaused consumer0"
    by (simp add: consumer0_def)
  have a: "ProducerPaused env0 (consumer0\<lparr>producerPaused := True\<rparr>) = (consumer0\<lparr>producerPaused := True\<rparr>, [])"
    using C8_producer_events [of "consumer0\<lparr>producerPaused := True\<rparr>" env0] p by blast
  have b: "ProducerResumed env0 consumer0 = (consumer0, [])"
    using C8_producer_events [of consumer0 env0] n by blast
  from p a n b show ?thesis
    by blast
qed

text \<open>
  The claim as stated fails for ProducerClosed: called again in the state it established
  (producerClosed set), it emits the notification and signals the listener once more.
\<close>

theorem C8_ProducerClosed_counterexample:
  "producerClosed (fst (ProducerClosed consumer0))
   \<and> snd (ProducerClosed (fst (ProducerClosed consumer0)))
       = [Notifier_Emit ''c0'' ''producerclose'' None, Listener_OnConsumerProducerClosed]
   \<and> ProducerClosed (fst (ProducerClosed consumer0)) \<noteq> (fst (ProducerClosed consumer0), [])"
  by (simp add: ProducerClosed_def Let_def consumer0_def)

section \<open>UdpSocket::Send\<close>







end
